theory Spec2Isabelle
  imports Complex_Main
begin

section \<open>Data model of \<open>routers/trainers.py\<close>\<close>

text \<open>
  The router works on six tables through an SQLAlchemy session. A table is the list of its
  rows in storage order, a row is a record, and the database is the record of the tables.
  Every endpoint takes the database and returns its outcome together with the database
  as the request leaves it: a raised \<open>HTTPException\<close> is the left injection, and the
  database is returned as it was, since nothing was committed.

  Python's \<open>int\<close> is \<open>int\<close>, \<open>str\<close> is \<open>string\<close>, \<open>Optional[str]\<close> is \<open>string option\<close>.
  A \<open>float\<close> is only ever copied from the payload to the row, never computed with, and is
  modelled as \<open>real\<close>.
\<close>

datatype date = Date (year: nat) (month: nat) (day: nat)

datatype time = Time (hour: nat) (minute: nat)

datatype error = HTTPException (status_code: nat) (detail: string)

text \<open>\<open>schemas.UserResponse\<close>: the caller, as the identity dependency hands it over.\<close>

record user_response =
  ur_id :: int
  ur_name :: string
  ur_role :: string
  ur_branch :: "string option"

text \<open>\<open>models.User\<close>\<close>

record user_row =
  u_id :: int
  u_name :: string
  u_role :: string
  u_branch :: "string option"

text \<open>\<open>models.Trainer\<close>: the specialization is stored as one delimited string.\<close>

record trainer_row =
  t_id :: int
  t_name :: string
  t_specialization :: "string option"
  t_rating :: real
  t_experience :: int
  t_phone :: string
  t_email :: string
  t_password :: string
  t_availability :: "string option"
  t_branch_name :: "string option"

text \<open>\<open>schemas.TrainerCreate\<close>: the payload of trainer creation and update.\<close>

record trainer_create =
  tc_name :: string
  tc_specialization :: "string list"
  tc_rating :: real
  tc_experience :: int
  tc_phone :: string
  tc_email :: string
  tc_password :: string
  tc_availability :: "string option"
  tc_branch_name :: "string option"

text \<open>\<open>schemas.TrainerResponse\<close>: the specialization is a list.\<close>

record trainer_response =
  tr_id :: int
  tr_name :: string
  tr_specialization :: "string list"
  tr_rating :: real
  tr_experience :: int
  tr_phone :: string
  tr_email :: string
  tr_availability :: "string option"
  tr_branch_name :: "string option"

text \<open>\<open>models.SessionSchedule\<close>\<close>

record session_row =
  s_id :: int
  s_trainer_id :: int
  s_session_name :: string
  s_session_date :: date
  s_start_time :: time
  s_end_time :: time
  s_branch_name :: "string option"
  s_max_capacity :: int
  s_description :: "string option"

text \<open>\<open>schemas.SessionScheduleCreate\<close>\<close>

record session_create =
  sc_session_name :: string
  sc_session_date :: date
  sc_start_time :: time
  sc_end_time :: time
  sc_max_capacity :: int
  sc_description :: "string option"

text \<open>\<open>models.SessionAttendance\<close>\<close>

record attendance_row =
  a_id :: int
  a_session_id :: int
  a_user_id :: int
  a_status :: string
  a_attendance_date :: date

text \<open>\<open>schemas.SessionAttendanceCreate\<close>\<close>

record attendance_create =
  ac_user_id :: int
  ac_status :: string
  ac_attendance_date :: date

text \<open>
  \<open>schemas.SessionAttendanceResponse\<close>: the attendance row with the \<open>user\<close> attribute the
  endpoint assigns to it (the result of a \<open>first()\<close>, so possibly \<open>None\<close>).
\<close>

record attendance_response =
  ar_attendance :: attendance_row
  ar_user :: "user_row option"

text \<open>\<open>models.DietPlan\<close> and \<open>models.ExercisePlan\<close>\<close>

record diet_plan_row =
  dp_id :: int
  dp_user_id :: int
  dp_assigned_by_trainer_id :: int
  dp_title :: string
  dp_description :: "string option"
  dp_assigned_date :: date
  dp_expiry_date :: "date option"
  dp_branch_name :: "string option"

record exercise_plan_row =
  ep_id :: int
  ep_user_id :: int
  ep_assigned_by_trainer_id :: int
  ep_title :: string
  ep_description :: "string option"
  ep_assigned_date :: date
  ep_expiry_date :: "date option"
  ep_branch_name :: "string option"

text \<open>\<open>schemas.DietPlanCreate\<close> and \<open>schemas.ExercisePlanCreate\<close>\<close>

record diet_plan_create =
  dpc_user_id :: int
  dpc_title :: string
  dpc_description :: "string option"
  dpc_expiry_date :: "date option"

record exercise_plan_create =
  epc_user_id :: int
  epc_title :: string
  epc_description :: "string option"
  epc_expiry_date :: "date option"

text \<open>\<open>schemas.DietPlanResponse\<close> and \<open>schemas.ExercisePlanResponse\<close>\<close>

record diet_plan_response =
  dpr_plan :: diet_plan_row
  dpr_user :: user_response
  dpr_assigned_by_trainer :: trainer_response

record exercise_plan_response =
  epr_plan :: exercise_plan_row
  epr_user :: user_response
  epr_assigned_by_trainer :: trainer_response

record db =
  users :: "user_row list"
  trainers :: "trainer_row list"
  session_schedules :: "session_row list"
  session_attendances :: "attendance_row list"
  diet_plans :: "diet_plan_row list"
  exercise_plans :: "exercise_plan_row list"

section \<open>Python and storage primitives\<close>

text \<open>
  Truthiness of an \<open>Optional[str]\<close>, as \<open>if current_user.branch:\<close> tests it: \<open>None\<close> and
  the empty string are both false.
\<close>

definition truthy :: "string option \<Rightarrow> bool" where
  "truthy b = (case b of None \<Rightarrow> False | Some s \<Rightarrow> s \<noteq> [])"

text \<open>\<open>s.split(sep)\<close> for a one-character separator: always at least one piece.\<close>

fun str_split :: "char \<Rightarrow> string \<Rightarrow> string list" where
  "str_split sep [] = [[]]"
| "str_split sep (c # cs) =
     (if c = sep then [] # str_split sep cs
      else (case str_split sep cs of
              [] \<Rightarrow> [[c]]
            | w # ws \<Rightarrow> (c # w) # ws))"

text \<open>\<open>sep.join(xs)\<close>\<close>

fun str_join :: "string \<Rightarrow> string list \<Rightarrow> string" where
  "str_join sep [] = []"
| "str_join sep [x] = x"
| "str_join sep (x # y # ys) = x @ sep @ str_join sep (y # ys)"

text \<open>
  The expression every read path applies to the stored specialization:
  \<open>t.specialization.split(",") if isinstance(t.specialization, str) and t.specialization else []\<close>
\<close>

definition specialization_list :: "string option \<Rightarrow> string list" where
  "specialization_list spec =
     (case spec of
        None \<Rightarrow> []
      | Some s \<Rightarrow> if s \<noteq> [] then str_split (CHR '','') s else [])"

text \<open>
  Modelled from the spec: the \<open>models\<close> module, which declares the primary keys, is not part
  of the sources at hand. The persistence engine assigns the key on insert; it is modelled
  as one more than the largest key of the table.
\<close>

definition next_id :: "int list \<Rightarrow> int" where
  "next_id ids = fold max ids 0 + 1"

text \<open>\<open>schemas.UserResponse.from_orm(user)\<close>\<close>

definition user_from_orm :: "user_row \<Rightarrow> user_response" where
  "user_from_orm u =
     \<lparr>ur_id = u_id u, ur_name = u_name u, ur_role = u_role u, ur_branch = u_branch u\<rparr>"

text \<open>
  \<open>schemas.TrainerResponse.from_orm(trainer)\<close>, for a row whose \<open>specialization\<close> attribute
  has been overwritten with the list \<open>spec\<close>.
\<close>

definition trainer_from_orm :: "trainer_row \<Rightarrow> string list \<Rightarrow> trainer_response" where
  "trainer_from_orm t spec =
     \<lparr>tr_id = t_id t, tr_name = t_name t, tr_specialization = spec, tr_rating = t_rating t,
      tr_experience = t_experience t, tr_phone = t_phone t, tr_email = t_email t,
      tr_availability = t_availability t, tr_branch_name = t_branch_name t\<rparr>"

section \<open>Dependencies\<close>

definition get_current_active_user :: "user_response option \<Rightarrow> error + user_response" where
  "get_current_active_user current_user =
     (case current_user of
        None \<Rightarrow> Inl (HTTPException 401 ''Could not validate credentials'')
      | Some u \<Rightarrow> Inr u)"

definition get_current_trainer :: "user_response option \<Rightarrow> error + user_response" where
  "get_current_trainer current_user =
     (case get_current_active_user current_user of
        Inl e \<Rightarrow> Inl e
      | Inr u \<Rightarrow>
          if ur_role u \<noteq> ''trainer''
          then Inl (HTTPException 403
                 ''Not authorized to perform this action. Only trainers can access this.'')
          else Inr u)"

definition get_current_admin_or_superadmin :: "user_response option \<Rightarrow> error + user_response" where
  "get_current_admin_or_superadmin current_user =
     (case get_current_active_user current_user of
        Inl e \<Rightarrow> Inl e
      | Inr u \<Rightarrow>
          if ur_role u \<notin> set [''admin'', ''superadmin'']
          then Inl (HTTPException 403
                 ''Not authorized to perform this action. Only admins or superadmins can access this.'')
          else Inr u)"

section \<open>Session management\<close>

definition create_session ::
  "session_create \<Rightarrow> db \<Rightarrow> user_response \<Rightarrow> (error + session_row) \<times> db" where
  "create_session session db current_trainer =
     (if \<not> truthy (ur_branch current_trainer)
      then (Inl (HTTPException 400 ''Trainer's branch not specified. Cannot create session.''), db)
      else
        let new_session =
              \<lparr>s_id = next_id (map s_id (session_schedules db)),
               s_trainer_id = ur_id current_trainer,
               s_session_name = sc_session_name session,
               s_session_date = sc_session_date session,
               s_start_time = sc_start_time session,
               s_end_time = sc_end_time session,
               s_branch_name = ur_branch current_trainer,
               s_max_capacity = sc_max_capacity session,
               s_description = sc_description session\<rparr>
        in (Inr new_session, db\<lparr>session_schedules := session_schedules db @ [new_session]\<rparr>))"

definition update_session ::
  "int \<Rightarrow> session_create \<Rightarrow> db \<Rightarrow> user_response \<Rightarrow> (error + session_row) \<times> db" where
  "update_session session_id session_update db current_trainer =
     (case find (\<lambda>s. s_id s = session_id \<and> s_trainer_id s = ur_id current_trainer)
             (session_schedules db) of
        None \<Rightarrow>
          (Inl (HTTPException 404 ''Session not found or not created by this trainer.''), db)
      | Some db_session \<Rightarrow>
          let write = (\<lambda>s. s\<lparr>s_session_name := sc_session_name session_update,
                              s_session_date := sc_session_date session_update,
                              s_start_time := sc_start_time session_update,
                              s_end_time := sc_end_time session_update,
                              s_max_capacity := sc_max_capacity session_update,
                              s_description := sc_description session_update\<rparr>)
          in (Inr (write db_session),
              db\<lparr>session_schedules :=
                    map (\<lambda>s. if s_id s = s_id db_session then write s else s)
                      (session_schedules db)\<rparr>))"

definition delete_session ::
  "int \<Rightarrow> db \<Rightarrow> user_response \<Rightarrow> (error + string) \<times> db" where
  "delete_session session_id db current_trainer =
     (case find (\<lambda>s. s_id s = session_id \<and> s_trainer_id s = ur_id current_trainer)
             (session_schedules db) of
        None \<Rightarrow>
          (Inl (HTTPException 404 ''Session not found or not created by this trainer.''), db)
      | Some db_session \<Rightarrow>
          (Inr ''Session deleted successfully'',
           db\<lparr>session_schedules :=
                 filter (\<lambda>s. s_id s \<noteq> s_id db_session) (session_schedules db)\<rparr>))"

section \<open>Session attendance\<close>

definition mark_session_attendance ::
  "int \<Rightarrow> attendance_create \<Rightarrow> db \<Rightarrow> user_response \<Rightarrow> (error + attendance_response) \<times> db" where
  "mark_session_attendance session_id attendance_data db current_user =
     (case find (\<lambda>s. s_id s = session_id) (session_schedules db) of
        None \<Rightarrow> (Inl (HTTPException 404 ''Session not found.''), db)
      | Some db_session \<Rightarrow>
          (case (if ur_role current_user = ''trainer''
                 then
                   if s_trainer_id db_session \<noteq> ur_id current_user
                      \<or> s_branch_name db_session \<noteq> ur_branch current_user
                   then Inl (HTTPException 403
                          ''Session not found, not created by this trainer, or not in trainer's branch.'')
                   else
                     (case find (\<lambda>u. u_id u = ac_user_id attendance_data
                                      \<and> u_branch u = ur_branch current_user) (users db) of
                        None \<Rightarrow> Inl (HTTPException 404
                                  ''User not found in trainer's branch or does not exist.'')
                      | Some user \<Rightarrow> Inr user)
                 else
                   if ac_user_id attendance_data \<noteq> ur_id current_user
                   then Inl (HTTPException 403 ''You can only mark your own attendance.'')
                   else
                     (case find (\<lambda>u. u_id u = ur_id current_user) (users db) of
                        None \<Rightarrow> Inl (HTTPException 404 ''User not found.'')
                      | Some user \<Rightarrow> Inr user)) of
             Inl e \<Rightarrow> (Inl e, db)
           | Inr user \<Rightarrow>
               (case find (\<lambda>a. a_session_id a = session_id
                                \<and> a_user_id a = ac_user_id attendance_data
                                \<and> a_attendance_date a = ac_attendance_date attendance_data)
                       (session_attendances db) of
                  Some existing_attendance \<Rightarrow>
                    (Inr \<lparr>ar_attendance =
                            existing_attendance\<lparr>a_status := ac_status attendance_data\<rparr>,
                          ar_user = Some user\<rparr>,
                     db\<lparr>session_attendances :=
                           map (\<lambda>a. if a_id a = a_id existing_attendance
                                     then a\<lparr>a_status := ac_status attendance_data\<rparr> else a)
                             (session_attendances db)\<rparr>)
                | None \<Rightarrow>
                    let new_attendance =
                          \<lparr>a_id = next_id (map a_id (session_attendances db)),
                           a_session_id = session_id,
                           a_user_id = ac_user_id attendance_data,
                           a_status = ac_status attendance_data,
                           a_attendance_date = ac_attendance_date attendance_data\<rparr>
                    in (Inr \<lparr>ar_attendance = new_attendance, ar_user = Some user\<rparr>,
                        db\<lparr>session_attendances :=
                              session_attendances db @ [new_attendance]\<rparr>))))"

text \<open>
  In \<open>update_session_attendance\<close> the trainer branch may assign \<open>user_id\<close> before the common
  tail assigns \<open>status\<close> and \<open>attendance_date\<close>; the branch yields the \<open>user_id\<close> to write.
\<close>

definition update_session_attendance ::
  "int \<Rightarrow> attendance_create \<Rightarrow> db \<Rightarrow> user_response \<Rightarrow> (error + attendance_response) \<times> db" where
  "update_session_attendance attendance_id attendance_data db current_user =
     (case find (\<lambda>a. a_id a = attendance_id) (session_attendances db) of
        None \<Rightarrow> (Inl (HTTPException 404 ''Attendance record not found.''), db)
      | Some db_attendance \<Rightarrow>
          (case (if ur_role current_user = ''trainer''
                 then
                   (case find (\<lambda>s. s_id s = a_session_id db_attendance
                                    \<and> s_trainer_id s = ur_id current_user
                                    \<and> s_branch_name s = ur_branch current_user)
                           (session_schedules db) of
                      None \<Rightarrow> Inl (HTTPException 403
                                ''Not authorized to update this attendance record (session not found or not yours).'')
                    | Some db_session \<Rightarrow>
                        if ac_user_id attendance_data \<noteq> a_user_id db_attendance
                        then
                          (case find (\<lambda>u. u_id u = ac_user_id attendance_data
                                           \<and> u_branch u = ur_branch current_user) (users db) of
                             None \<Rightarrow> Inl (HTTPException 404
                                       ''New user_id not found in trainer's branch or does not exist.'')
                           | Some user \<Rightarrow> Inr (ac_user_id attendance_data))
                        else Inr (a_user_id db_attendance))
                 else
                   if a_user_id db_attendance \<noteq> ur_id current_user
                   then Inl (HTTPException 403
                          ''You can only update your own attendance records.'')
                   else if ac_user_id attendance_data \<noteq> ur_id current_user
                   then Inl (HTTPException 403
                          ''You cannot change the user_id for attendance records.'')
                   else Inr (a_user_id db_attendance)) of
             Inl e \<Rightarrow> (Inl e, db)
           | Inr new_user_id \<Rightarrow>
               let write = (\<lambda>a. a\<lparr>a_user_id := new_user_id,
                                   a_status := ac_status attendance_data,
                                   a_attendance_date := ac_attendance_date attendance_data\<rparr>)
               in (Inr \<lparr>ar_attendance = write db_attendance,
                        ar_user = find (\<lambda>u. u_id u = new_user_id) (users db)\<rparr>,
                   db\<lparr>session_attendances :=
                         map (\<lambda>a. if a_id a = a_id db_attendance then write a else a)
                           (session_attendances db)\<rparr>)))"

definition delete_session_attendance ::
  "int \<Rightarrow> db \<Rightarrow> user_response \<Rightarrow> (error + string) \<times> db" where
  "delete_session_attendance attendance_id db current_user =
     (case find (\<lambda>a. a_id a = attendance_id) (session_attendances db) of
        None \<Rightarrow> (Inl (HTTPException 404 ''Attendance record not found.''), db)
      | Some db_attendance \<Rightarrow>
          (case (if ur_role current_user = ''trainer''
                 then
                   (case find (\<lambda>s. s_id s = a_session_id db_attendance
                                    \<and> s_trainer_id s = ur_id current_user
                                    \<and> s_branch_name s = ur_branch current_user)
                           (session_schedules db) of
                      None \<Rightarrow> Inl (HTTPException 403
                                ''Not authorized to delete this attendance record (session not found or not yours).'')
                    | Some db_session \<Rightarrow> Inr ())
                 else
                   if a_user_id db_attendance \<noteq> ur_id current_user
                   then Inl (HTTPException 403
                          ''You can only cancel your own session bookings.'')
                   else Inr ()) of
             Inl e \<Rightarrow> (Inl e, db)
           | Inr _ \<Rightarrow>
               (Inr ''Session deleted successfully'',
                db\<lparr>session_attendances :=
                      filter (\<lambda>a. a_id a \<noteq> a_id db_attendance) (session_attendances db)\<rparr>)))"

section \<open>Diet and exercise plans\<close>

text \<open>
  The response of a plan update is assembled after the commit. The trainer falls back to a
  placeholder when its row is missing; \<open>schemas.UserResponse.from_orm(user)\<close> has no such
  fallback and raises on \<open>None\<close>, which the framework reports as an internal error with
  the update already stored.
\<close>

definition update_diet_plan ::
  "int \<Rightarrow> diet_plan_create \<Rightarrow> db \<Rightarrow> user_response \<Rightarrow> (error + diet_plan_response) \<times> db" where
  "update_diet_plan plan_id diet_plan_update db current_trainer =
     (case find (\<lambda>p. dp_id p = plan_id
                      \<and> dp_assigned_by_trainer_id p = ur_id current_trainer
                      \<and> dp_branch_name p = ur_branch current_trainer) (diet_plans db) of
        None \<Rightarrow>
          (Inl (HTTPException 404
             ''Diet plan not found or not assigned by this trainer in this branch.''), db)
      | Some db_diet_plan \<Rightarrow>
          if dpc_user_id diet_plan_update \<noteq> dp_user_id db_diet_plan
          then (Inl (HTTPException 400
                  ''User of a diet plan cannot be changed after assignment.''), db)
          else
            let write = (\<lambda>p. p\<lparr>dp_title := dpc_title diet_plan_update,
                                dp_description := dpc_description diet_plan_update,
                                dp_expiry_date := dpc_expiry_date diet_plan_update\<rparr>);
                db' = db\<lparr>diet_plans :=
                           map (\<lambda>p. if dp_id p = dp_id db_diet_plan then write p else p)
                             (diet_plans db)\<rparr>;
                trainer_schema =
                  (case find (\<lambda>t. t_id t = dp_assigned_by_trainer_id db_diet_plan)
                          (trainers db') of
                     Some trainer_data \<Rightarrow>
                       trainer_from_orm trainer_data
                         (specialization_list (t_specialization trainer_data))
                   | None \<Rightarrow>
                       \<lparr>tr_id = dp_assigned_by_trainer_id db_diet_plan,
                        tr_name = ''Unknown Trainer'', tr_specialization = [],
                        tr_rating = 0, tr_experience = 0, tr_phone = [], tr_email = [],
                        tr_availability = None, tr_branch_name = None\<rparr>)
            in (case find (\<lambda>u. u_id u = dp_user_id db_diet_plan) (users db') of
                  None \<Rightarrow> (Inl (HTTPException 500 ''Internal Server Error''), db')
                | Some user \<Rightarrow>
                    (Inr \<lparr>dpr_plan = write db_diet_plan, dpr_user = user_from_orm user,
                          dpr_assigned_by_trainer = trainer_schema\<rparr>, db')))"

definition update_exercise_plan ::
  "int \<Rightarrow> exercise_plan_create \<Rightarrow> db \<Rightarrow> user_response
     \<Rightarrow> (error + exercise_plan_response) \<times> db" where
  "update_exercise_plan plan_id exercise_plan_update db current_trainer =
     (case find (\<lambda>p. ep_id p = plan_id
                      \<and> ep_assigned_by_trainer_id p = ur_id current_trainer
                      \<and> ep_branch_name p = ur_branch current_trainer) (exercise_plans db) of
        None \<Rightarrow>
          (Inl (HTTPException 404
             ''Exercise plan not found or not assigned by this trainer in this branch.''), db)
      | Some db_exercise_plan \<Rightarrow>
          if epc_user_id exercise_plan_update \<noteq> ep_user_id db_exercise_plan
          then (Inl (HTTPException 400
                  ''User of an exercise plan cannot be changed after assignment.''), db)
          else
            let write = (\<lambda>p. p\<lparr>ep_title := epc_title exercise_plan_update,
                                ep_description := epc_description exercise_plan_update,
                                ep_expiry_date := epc_expiry_date exercise_plan_update\<rparr>);
                db' = db\<lparr>exercise_plans :=
                           map (\<lambda>p. if ep_id p = ep_id db_exercise_plan then write p else p)
                             (exercise_plans db)\<rparr>;
                trainer_schema =
                  (case find (\<lambda>t. t_id t = ep_assigned_by_trainer_id db_exercise_plan)
                          (trainers db') of
                     Some trainer_data \<Rightarrow>
                       trainer_from_orm trainer_data
                         (specialization_list (t_specialization trainer_data))
                   | None \<Rightarrow>
                       \<lparr>tr_id = ep_assigned_by_trainer_id db_exercise_plan,
                        tr_name = ''Unknown Trainer'', tr_specialization = [],
                        tr_rating = 0, tr_experience = 0, tr_phone = [], tr_email = [],
                        tr_availability = None, tr_branch_name = None\<rparr>)
            in (case find (\<lambda>u. u_id u = ep_user_id db_exercise_plan) (users db') of
                  None \<Rightarrow> (Inl (HTTPException 500 ''Internal Server Error''), db')
                | Some user \<Rightarrow>
                    (Inr \<lparr>epr_plan = write db_exercise_plan, epr_user = user_from_orm user,
                          epr_assigned_by_trainer = trainer_schema\<rparr>, db')))"

section \<open>Trainer records\<close>

text \<open>
  \<open>utils.get_password_hash\<close> is an external collaborator; the endpoints that call it take
  it as the parameter \<open>get_password_hash\<close>.
\<close>

definition add_trainer ::
  "(string \<Rightarrow> string) \<Rightarrow> trainer_create \<Rightarrow> db \<Rightarrow> user_response
     \<Rightarrow> (error + trainer_response) \<times> db" where
  "add_trainer get_password_hash trainer db current_admin =
     (case find (\<lambda>t. t_email t = tc_email trainer) (trainers db) of
        Some existing_trainer \<Rightarrow>
          (Inl (HTTPException 400 ''Trainer with this email already exists.''), db)
      | None \<Rightarrow>
          let hashed_password = get_password_hash (tc_password trainer);
              new_trainer =
                \<lparr>t_id = next_id (map t_id (trainers db)),
                 t_name = tc_name trainer,
                 t_specialization = Some (str_join '','' (tc_specialization trainer)),
                 t_rating = tc_rating trainer,
                 t_experience = tc_experience trainer,
                 t_phone = tc_phone trainer,
                 t_email = tc_email trainer,
                 t_password = hashed_password,
                 t_availability = tc_availability trainer,
                 t_branch_name =
                   (if ur_role current_admin = ''admin'' then ur_branch current_admin
                    else tc_branch_name trainer)\<rparr>
          in (Inr (trainer_from_orm new_trainer (tc_specialization trainer)),
              db\<lparr>trainers := trainers db @ [new_trainer]\<rparr>))"

definition get_trainers ::
  "db \<Rightarrow> user_response \<Rightarrow> (error + trainer_response list) \<times> db" where
  "get_trainers db current_user =
     (case (if ur_role current_user = ''admin''
            then
              if \<not> truthy (ur_branch current_user)
              then Inl (HTTPException 400 ''Admin's branch not specified.'')
              else Inr (filter (\<lambda>t. t_branch_name t = ur_branch current_user) (trainers db))
            else if ur_role current_user = ''superadmin''
            then Inr (trainers db)
            else
              if truthy (ur_branch current_user)
              then Inr (filter (\<lambda>t. t_branch_name t = ur_branch current_user) (trainers db))
              else Inr (trainers db)) of
        Inl e \<Rightarrow> (Inl e, db)
      | Inr query \<Rightarrow>
          (Inr (map (\<lambda>t. trainer_from_orm t (specialization_list (t_specialization t))) query),
           db))"

definition get_trainer_by_id :: "int \<Rightarrow> db \<Rightarrow> (error + trainer_response) \<times> db" where
  "get_trainer_by_id trainer_id db =
     (case find (\<lambda>t. t_id t = trainer_id) (trainers db) of
        None \<Rightarrow> (Inl (HTTPException 404 ''Trainer not found''), db)
      | Some trainer \<Rightarrow>
          (Inr (trainer_from_orm trainer (specialization_list (t_specialization trainer))), db))"

definition update_trainer ::
  "(string \<Rightarrow> string) \<Rightarrow> int \<Rightarrow> trainer_create \<Rightarrow> db \<Rightarrow> (error + trainer_response) \<times> db" where
  "update_trainer get_password_hash trainer_id trainer db =
     (case find (\<lambda>t. t_id t = trainer_id) (trainers db) of
        None \<Rightarrow> (Inl (HTTPException 404 ''Trainer not found''), db)
      | Some db_trainer \<Rightarrow>
          let write = (\<lambda>t. t\<lparr>t_name := tc_name trainer,
                              t_specialization := Some (str_join '','' (tc_specialization trainer)),
                              t_rating := tc_rating trainer,
                              t_experience := tc_experience trainer,
                              t_phone := tc_phone trainer,
                              t_email := tc_email trainer,
                              t_password := get_password_hash (tc_password trainer),
                              t_availability := tc_availability trainer,
                              t_branch_name := tc_branch_name trainer\<rparr>)
          in (Inr (trainer_from_orm (write db_trainer) (tc_specialization trainer)),
              db\<lparr>trainers :=
                    map (\<lambda>t. if t_id t = t_id db_trainer then write t else t) (trainers db)\<rparr>))"

definition delete_trainer :: "int \<Rightarrow> db \<Rightarrow> (error + string) \<times> db" where
  "delete_trainer trainer_id db =
     (case find (\<lambda>t. t_id t = trainer_id) (trainers db) of
        None \<Rightarrow> (Inl (HTTPException 404 ''Trainer not found''), db)
      | Some db_trainer \<Rightarrow>
          (Inr ''Trainer deleted successfully'',
           db\<lparr>trainers := filter (\<lambda>t. t_id t \<noteq> t_id db_trainer) (trainers db)\<rparr>))"

section \<open>The routes and their dependencies\<close>

text \<open>
  Each route names, in its signature, the dependency that resolves the caller before the
  body runs; the three trainer routes on \<open>/{trainer_id}\<close> name none. The caller context of
  a request is \<open>None\<close> when the identity provider yields no user.
\<close>

datatype request =
    POST_sessions session_create
  | PUT_sessions int session_create
  | DELETE_sessions int
  | POST_sessions_attendance int attendance_create
  | PUT_sessions_attendance int attendance_create
  | DELETE_sessions_attendance int
  | PUT_diet_plans int diet_plan_create
  | PUT_exercise_plans int exercise_plan_create
  | POST_add_trainer trainer_create
  | GET_trainers
  | GET_trainer int
  | PUT_trainer int trainer_create
  | DELETE_trainer int

datatype response =
    SessionScheduleResponse session_row
  | SessionAttendanceResponse attendance_response
  | DietPlanResponse diet_plan_response
  | ExercisePlanResponse exercise_plan_response
  | TrainerResponse trainer_response
  | TrainerListResponse "trainer_response list"
  | Message string

definition respond ::
  "('a \<Rightarrow> response) \<Rightarrow> (error + 'a) \<times> db \<Rightarrow> (error + response) \<times> db" where
  "respond wrap r = (case fst r of Inl e \<Rightarrow> Inl e | Inr x \<Rightarrow> Inr (wrap x), snd r)"

definition depends ::
  "error + user_response \<Rightarrow> db \<Rightarrow> (user_response \<Rightarrow> (error + response) \<times> db)
     \<Rightarrow> (error + response) \<times> db" where
  "depends dep db body = (case dep of Inl e \<Rightarrow> (Inl e, db) | Inr u \<Rightarrow> body u)"

definition router ::
  "(string \<Rightarrow> string) \<Rightarrow> user_response option \<Rightarrow> request \<Rightarrow> db \<Rightarrow> (error + response) \<times> db" where
  "router get_password_hash caller req db =
     (case req of
        POST_sessions session \<Rightarrow>
          depends (get_current_trainer caller) db
            (\<lambda>u. respond SessionScheduleResponse (create_session session db u))
      | PUT_sessions session_id session_update \<Rightarrow>
          depends (get_current_trainer caller) db
            (\<lambda>u. respond SessionScheduleResponse (update_session session_id session_update db u))
      | DELETE_sessions session_id \<Rightarrow>
          depends (get_current_trainer caller) db
            (\<lambda>u. respond Message (delete_session session_id db u))
      | POST_sessions_attendance session_id attendance_data \<Rightarrow>
          depends (get_current_active_user caller) db
            (\<lambda>u. respond SessionAttendanceResponse
                    (mark_session_attendance session_id attendance_data db u))
      | PUT_sessions_attendance attendance_id attendance_data \<Rightarrow>
          depends (get_current_active_user caller) db
            (\<lambda>u. respond SessionAttendanceResponse
                    (update_session_attendance attendance_id attendance_data db u))
      | DELETE_sessions_attendance attendance_id \<Rightarrow>
          depends (get_current_active_user caller) db
            (\<lambda>u. respond Message (delete_session_attendance attendance_id db u))
      | PUT_diet_plans plan_id diet_plan_update \<Rightarrow>
          depends (get_current_trainer caller) db
            (\<lambda>u. respond DietPlanResponse (update_diet_plan plan_id diet_plan_update db u))
      | PUT_exercise_plans plan_id exercise_plan_update \<Rightarrow>
          depends (get_current_trainer caller) db
            (\<lambda>u. respond ExercisePlanResponse
                    (update_exercise_plan plan_id exercise_plan_update db u))
      | POST_add_trainer trainer \<Rightarrow>
          depends (get_current_admin_or_superadmin caller) db
            (\<lambda>u. respond TrainerResponse (add_trainer get_password_hash trainer db u))
      | GET_trainers \<Rightarrow>
          depends (get_current_active_user caller) db
            (\<lambda>u. respond TrainerListResponse (get_trainers db u))
      | GET_trainer trainer_id \<Rightarrow>
          respond TrainerResponse (get_trainer_by_id trainer_id db)
      | PUT_trainer trainer_id trainer \<Rightarrow>
          respond TrainerResponse (update_trainer get_password_hash trainer_id trainer db)
      | DELETE_trainer trainer_id \<Rightarrow>
          respond Message (delete_trainer trainer_id db))"

section \<open>What the properties speak about\<close>

text \<open>The tuple that identifies an attendance record in the data model.\<close>

definition attendance_key :: "attendance_row \<Rightarrow> int \<times> int \<times> date" where
  "attendance_key a = (a_session_id a, a_user_id a, a_attendance_date a)"

text \<open>At most one attendance record per \<open>(session_id, user_id, attendance_date)\<close>.\<close>

definition attendance_unique :: "db \<Rightarrow> bool" where
  "attendance_unique db = distinct (map attendance_key (session_attendances db))"

text \<open>The attendance records stored for one tuple.\<close>

definition attendance_for :: "int \<Rightarrow> int \<Rightarrow> date \<Rightarrow> db \<Rightarrow> attendance_row list" where
  "attendance_for session_id user_id attendance_date db =
     filter (\<lambda>a. a_session_id a = session_id \<and> a_user_id a = user_id
                  \<and> a_attendance_date a = attendance_date) (session_attendances db)"

text \<open>The columns of a session that are set at creation: key, owner and branch.\<close>

definition session_fixed :: "session_row \<Rightarrow> int \<times> int \<times> string option" where
  "session_fixed s = (s_id s, s_trainer_id s, s_branch_name s)"

text \<open>The databases reached from \<open>db\<close> by successful session updates, by any callers.\<close>

inductive session_updates :: "db \<Rightarrow> db \<Rightarrow> bool" where
  no_update: "session_updates db db"
| one_more: "session_updates db db1 \<Longrightarrow>
             update_session session_id session_update db1 current_trainer = (Inr r, db2) \<Longrightarrow>
             session_updates db db2"

text \<open>
  A plan belongs to a trainer the way the update endpoints look it up: assigned by the
  trainer, under the trainer's branch.
\<close>

definition owns_diet_plan :: "user_response \<Rightarrow> diet_plan_row \<Rightarrow> bool" where
  "owns_diet_plan trainer p =
     (dp_assigned_by_trainer_id p = ur_id trainer \<and> dp_branch_name p = ur_branch trainer)"

definition owns_exercise_plan :: "user_response \<Rightarrow> exercise_plan_row \<Rightarrow> bool" where
  "owns_exercise_plan trainer p =
     (ep_assigned_by_trainer_id p = ur_id trainer \<and> ep_branch_name p = ur_branch trainer)"

section \<open>A small gym\<close>

text \<open>
  Two branches. Asha trains in branch X and owns the Yoga session; Ben trains in branch X
  as well and owns nothing. Mira is a member of branch X with two bookings, Nils a member
  of branch Y, Olu a member whose branch is the empty string.
\<close>

definition yoga :: session_row where
  "yoga = \<lparr>s_id = 1, s_trainer_id = 1, s_session_name = ''Yoga'',
           s_session_date = Date 2024 6 1, s_start_time = Time 9 0, s_end_time = Time 10 0,
           s_branch_name = Some ''X'', s_max_capacity = 20, s_description = None\<rparr>"

definition asha_row :: trainer_row where
  "asha_row = \<lparr>t_id = 1, t_name = ''Asha'', t_specialization = Some ''yoga,pilates'',
               t_rating = 5, t_experience = 7, t_phone = ''100'', t_email = ''asha@gym'',
               t_password = ''h1'', t_availability = None, t_branch_name = Some ''X''\<rparr>"

definition zoe_row :: trainer_row where
  "zoe_row = \<lparr>t_id = 2, t_name = ''Zoe'', t_specialization = Some [],
              t_rating = 4, t_experience = 2, t_phone = ''200'', t_email = ''zoe@gym'',
              t_password = ''h2'', t_availability = None, t_branch_name = Some ''Y''\<rparr>"

definition gym :: db where
  "gym = \<lparr>users =
            [\<lparr>u_id = 1, u_name = ''Asha'', u_role = ''trainer'', u_branch = Some ''X''\<rparr>,
             \<lparr>u_id = 2, u_name = ''Mira'', u_role = ''member'', u_branch = Some ''X''\<rparr>,
             \<lparr>u_id = 3, u_name = ''Nils'', u_role = ''member'', u_branch = Some ''Y''\<rparr>,
             \<lparr>u_id = 4, u_name = ''Ben'', u_role = ''trainer'', u_branch = Some ''X''\<rparr>],
          trainers = [asha_row, zoe_row],
          session_schedules = [yoga],
          session_attendances =
            [\<lparr>a_id = 1, a_session_id = 1, a_user_id = 2, a_status = ''booked'',
              a_attendance_date = Date 2024 6 1\<rparr>,
             \<lparr>a_id = 2, a_session_id = 1, a_user_id = 2, a_status = ''booked'',
              a_attendance_date = Date 2024 6 8\<rparr>],
          diet_plans =
            [\<lparr>dp_id = 1, dp_user_id = 2, dp_assigned_by_trainer_id = 1, dp_title = ''Lean'',
              dp_description = None, dp_assigned_date = Date 2024 5 1, dp_expiry_date = None,
              dp_branch_name = Some ''X''\<rparr>],
          exercise_plans =
            [\<lparr>ep_id = 1, ep_user_id = 2, ep_assigned_by_trainer_id = 1, ep_title = ''Core'',
              ep_description = None, ep_assigned_date = Date 2024 5 1, ep_expiry_date = None,
              ep_branch_name = Some ''X''\<rparr>]\<rparr>"

definition asha :: user_response where
  "asha = \<lparr>ur_id = 1, ur_name = ''Asha'', ur_role = ''trainer'', ur_branch = Some ''X''\<rparr>"

definition ben :: user_response where
  "ben = \<lparr>ur_id = 4, ur_name = ''Ben'', ur_role = ''trainer'', ur_branch = Some ''X''\<rparr>"

definition mira :: user_response where
  "mira = \<lparr>ur_id = 2, ur_name = ''Mira'', ur_role = ''member'', ur_branch = Some ''X''\<rparr>"

definition nils :: user_response where
  "nils = \<lparr>ur_id = 3, ur_name = ''Nils'', ur_role = ''member'', ur_branch = Some ''Y''\<rparr>"

definition olu :: user_response where
  "olu = \<lparr>ur_id = 6, ur_name = ''Olu'', ur_role = ''member'', ur_branch = Some []\<rparr>"

definition admin_x :: user_response where
  "admin_x = \<lparr>ur_id = 5, ur_name = ''Ada'', ur_role = ''admin'', ur_branch = Some ''X''\<rparr>"

definition admin_nowhere :: user_response where
  "admin_nowhere = \<lparr>ur_id = 7, ur_name = ''Ann'', ur_role = ''admin'', ur_branch = None\<rparr>"

definition root :: user_response where
  "root = \<lparr>ur_id = 8, ur_name = ''Root'', ur_role = ''superadmin'', ur_branch = None\<rparr>"

definition booking :: "int \<Rightarrow> string \<Rightarrow> date \<Rightarrow> attendance_create" where
  "booking user_id status attendance_date =
     \<lparr>ac_user_id = user_id, ac_status = status, ac_attendance_date = attendance_date\<rparr>"

definition pilates :: session_create where
  "pilates = \<lparr>sc_session_name = ''Pilates'', sc_session_date = Date 2024 6 2,
              sc_start_time = Time 18 0, sc_end_time = Time 19 0, sc_max_capacity = 12,
              sc_description = Some ''mat''\<rparr>"

definition kim :: trainer_create where
  "kim = \<lparr>tc_name = ''Kim'', tc_specialization = [''boxing'', ''hiit''], tc_rating = 3,
          tc_experience = 1, tc_phone = ''300'', tc_email = ''kim@gym'', tc_password = ''pw'',
          tc_availability = Some ''mornings'', tc_branch_name = Some ''Y''\<rparr>"

definition evening :: session_create where
  "evening = \<lparr>sc_session_name = ''Evening Pilates'', sc_session_date = Date 2024 6 3,
              sc_start_time = Time 19 0, sc_end_time = Time 20 0, sc_max_capacity = 10,
              sc_description = None\<rparr>"

definition to_nils :: diet_plan_create where
  "to_nils = \<lparr>dpc_user_id = 3, dpc_title = ''Bulk'', dpc_description = None,
              dpc_expiry_date = None\<rparr>"

definition to_nils_too :: exercise_plan_create where
  "to_nils_too = \<lparr>epc_user_id = 3, epc_title = ''Legs'', epc_description = None,
                  epc_expiry_date = None\<rparr>"

definition kim_row :: trainer_row where
  "kim_row = \<lparr>t_id = 3, t_name = ''Kim'', t_specialization = Some ''boxing,hiit'',
              t_rating = 3, t_experience = 1, t_phone = ''300'', t_email = ''kim@gym'',
              t_password = ''#wp'', t_availability = Some ''mornings'',
              t_branch_name = Some ''X''\<rparr>"

text \<open>A stand-in for the credential hashing service, for the concrete runs.\<close>

definition toy_hash :: "string \<Rightarrow> string" where
  "toy_hash pw = ''#'' @ rev pw"

section \<open>Unfolding and storage lemmas\<close>

lemmas route_defs =
  router_def depends_def respond_def get_current_active_user_def get_current_trainer_def
  get_current_admin_or_superadmin_def

lemmas gym_defs =
  gym_def yoga_def asha_row_def zoe_row_def asha_def ben_def mira_def nils_def olu_def
  admin_x_def admin_nowhere_def root_def booking_def pilates_def kim_def

lemma fold_max_ge: "(a::int) \<le> fold max xs a"
  by (induction xs arbitrary: a) (auto intro: order_trans[OF max.cobounded2])

lemma fold_max_mem: "(x::int) \<in> set xs \<Longrightarrow> x \<le> fold max xs a"
  by (induction xs arbitrary: a) (auto intro: order_trans[OF max.cobounded1 fold_max_ge])

lemma next_id_fresh: "x \<in> set ids \<Longrightarrow> x < next_id ids"
  unfolding next_id_def using fold_max_mem[of x ids 0] by simp

lemma find_Some_mem: "find P xs = Some x \<Longrightarrow> x \<in> set xs \<and> P x"
  by (induction xs) (auto split: if_splits)

lemma find_by_key_Some:
  "k \<in> f ` set xs \<Longrightarrow> \<exists>x. find (\<lambda>x. f x = k) xs = Some x"
  by (cases "find (\<lambda>x. f x = k) xs") (auto simp: find_None_iff)

lemma find_append_new:
  "find P xs = None \<Longrightarrow> P x \<Longrightarrow> find P (xs @ [x]) = Some x"
  by (induction xs) (auto split: if_splits)

lemma find_fresh_append:
  assumes "\<forall>x\<in>set xs. f x \<noteq> f y"
  shows "find (\<lambda>x. f x = f y) (xs @ [y]) = Some y"
proof -
  from assms have "find (\<lambda>x. f x = f y) xs = None" by (simp add: find_None_iff)
  then show ?thesis by (rule find_append_new) simp
qed

lemma find_None_filter: "find P xs = None \<Longrightarrow> filter P xs = []"
  by (induction xs) (auto split: if_splits)

lemma find_filter_single:
  "length (filter P xs) \<le> 1 \<Longrightarrow> find P xs = Some e \<Longrightarrow> filter P xs = [e]"
  by (induction xs) (auto split: if_splits)

lemma find_None_conj:
  "\<forall>s\<in>set xs. P s \<longrightarrow> \<not> Q s \<Longrightarrow> find (\<lambda>s. P s \<and> Q s) xs = None"
  by (simp add: find_None_iff)

lemma find_conj_Some:
  "find P xs = Some x \<Longrightarrow> Q x \<Longrightarrow> find (\<lambda>y. P y \<and> Q y) xs = Some x"
  by (induction xs) (auto split: if_splits)

lemma find_map_by_key:
  assumes "find (\<lambda>x. f x = k) xs = Some e" and "\<And>x. f (w x) = f x"
  shows "find (\<lambda>x. f x = k) (map (\<lambda>x. if f x = f e then w x else x) xs) = Some (w e)"
  using assms(1)
proof (induction xs)
  case Nil
  then show ?case by simp
next
  case (Cons x xs)
  show ?case
  proof (cases "f x = k")
    case True
    with Cons.prems have "e = x" by simp
    with True show ?thesis by (simp add: assms(2))
  next
    case False
    with Cons.prems have rest: "find (\<lambda>x. f x = k) xs = Some e" by simp
    then have "f e = k" by (auto dest: find_Some_mem)
    with False Cons.IH[OF rest] show ?thesis by (simp add: assms(2))
  qed
qed

lemma find_filter_out:
  "find (\<lambda>x. f x = k) (filter (\<lambda>x. f x \<noteq> k) xs) = None"
  by (simp add: find_None_iff)

section \<open>Attendance creation is an upsert\<close>

lemma mark_session_attendance_cases:
  assumes "mark_session_attendance sid d db c = (Inr r, db')"
  shows "\<exists>s u. find (\<lambda>s. s_id s = sid) (session_schedules db) = Some s \<and> ar_user r = Some u \<and>
     (case find (\<lambda>a. a_session_id a = sid \<and> a_user_id a = ac_user_id d
                      \<and> a_attendance_date a = ac_attendance_date d) (session_attendances db) of
        Some e \<Rightarrow> db' = db\<lparr>session_attendances :=
                    map (\<lambda>a. if a_id a = a_id e then a\<lparr>a_status := ac_status d\<rparr> else a)
                      (session_attendances db)\<rparr>
                  \<and> ar_attendance r = e\<lparr>a_status := ac_status d\<rparr>
      | None \<Rightarrow> db' = db\<lparr>session_attendances := session_attendances db @ [ar_attendance r]\<rparr>
               \<and> ar_attendance r = \<lparr>a_id = next_id (map a_id (session_attendances db)),
                           a_session_id = sid,
                           a_user_id = ac_user_id d,
                           a_status = ac_status d,
                           a_attendance_date = ac_attendance_date d\<rparr>)"
  using assms unfolding mark_session_attendance_def
  by (auto simp: Let_def split: option.splits sum.splits if_splits)

lemma find_status_update:
  "find (\<lambda>a. a_session_id a = sid \<and> a_user_id a = uid \<and> a_attendance_date a = dt) xs = Some e
   \<Longrightarrow> find (\<lambda>a. a_session_id a = sid \<and> a_user_id a = uid \<and> a_attendance_date a = dt)
         (map (\<lambda>a. if a_id a = a_id e then a\<lparr>a_status := st\<rparr> else a) xs)
       = Some (e\<lparr>a_status := st\<rparr>)"
  by (induction xs) (auto split: if_splits)

lemma filter_status_update:
  "filter (\<lambda>a. a_session_id a = sid \<and> a_user_id a = uid \<and> a_attendance_date a = dt)
         (map (\<lambda>a. if a_id a = i then a\<lparr>a_status := st\<rparr> else a) xs)
   = map (\<lambda>a. if a_id a = i then a\<lparr>a_status := st\<rparr> else a)
       (filter (\<lambda>a. a_session_id a = sid \<and> a_user_id a = uid \<and> a_attendance_date a = dt) xs)"
  by (induction xs) auto

lemma mark_session_attendance_frame:
  assumes "mark_session_attendance sid d db c = (r, db')"
  shows "users db' = users db \<and> session_schedules db' = session_schedules db"
  using assms unfolding mark_session_attendance_def
  by (auto simp: Let_def split: option.splits sum.splits if_splits)

lemma mark_session_attendance_again:
  assumes "mark_session_attendance sid d1 db c = (Inr r1, db1)"
    and "ac_user_id d2 = ac_user_id d1"
  shows "\<exists>r2 db2. mark_session_attendance sid d2 db1 c = (Inr r2, db2)"
proof -
  from mark_session_attendance_frame[OF assms(1)]
  have fr: "users db1 = users db" "session_schedules db1 = session_schedules db" by auto
  from assms show ?thesis
    unfolding mark_session_attendance_def fr
    by (auto simp: Let_def split: option.splits sum.splits if_splits)
qed

lemma mark_session_attendance_single:
  assumes ok: "mark_session_attendance sid d db c = (Inr r, db')"
    and one: "length (attendance_for sid (ac_user_id d) (ac_attendance_date d) db) \<le> 1"
  shows "attendance_for sid (ac_user_id d) (ac_attendance_date d) db' = [ar_attendance r]
         \<and> a_status (ar_attendance r) = ac_status d"
proof -
  let ?P = "\<lambda>a. a_session_id a = sid \<and> a_user_id a = ac_user_id d
                      \<and> a_attendance_date a = ac_attendance_date d"
  show ?thesis
  proof (cases "find ?P (session_attendances db)")
    case None
    from mark_session_attendance_cases[OF ok] None
    have db': "session_attendances db' = session_attendances db @ [ar_attendance r]"
      and P: "?P (ar_attendance r)" and st: "a_status (ar_attendance r) = ac_status d"
      by auto
    from find_None_filter[OF None] P st show ?thesis
      by (simp add: attendance_for_def db')
  next
    case (Some e)
    from mark_session_attendance_cases[OF ok] Some
    have db': "session_attendances db' =
            map (\<lambda>a. if a_id a = a_id e then a\<lparr>a_status := ac_status d\<rparr> else a)
              (session_attendances db)"
      and r: "ar_attendance r = e\<lparr>a_status := ac_status d\<rparr>"
      by auto
    from one have "length (filter ?P (session_attendances db)) \<le> 1"
      by (simp add: attendance_for_def)
    from find_filter_single[OF this Some]
    have "filter ?P (session_attendances db) = [e]" .
    then show ?thesis
      by (simp add: attendance_for_def db' filter_status_update r)
  qed
qed

lemma mark_session_attendance_no_insert:
  assumes ok: "mark_session_attendance sid d db c = (Inr r, db')"
    and ex: "attendance_for sid (ac_user_id d) (ac_attendance_date d) db \<noteq> []"
  shows "length (session_attendances db') = length (session_attendances db)"
proof -
  let ?P = "\<lambda>a. a_session_id a = sid \<and> a_user_id a = ac_user_id d
                      \<and> a_attendance_date a = ac_attendance_date d"
  from ex have "find ?P (session_attendances db) \<noteq> None"
    using find_None_filter[of ?P "session_attendances db"] by (auto simp: attendance_for_def)
  then obtain e where "find ?P (session_attendances db) = Some e" by auto
  with mark_session_attendance_cases[OF ok] show ?thesis by auto
qed

text \<open>
  Claim C1. Let a first create for \<open>(session_id, user_id, attendance_date)\<close> succeed from
  a database that holds at most one record for that tuple. Then a second create for the same
  tuple by the same caller succeeds as well, and after a second create by any caller the
  database holds exactly one record for the tuple, the one the second create returns, with
  the status submitted second; the second create adds no row.
\<close>

theorem mark_session_attendance_upsert:
  assumes before: "length (attendance_for session_id (ac_user_id d1) (ac_attendance_date d1) db) \<le> 1"
    and first: "mark_session_attendance session_id d1 db c1 = (Inr r1, db1)"
    and same: "ac_user_id d2 = ac_user_id d1" "ac_attendance_date d2 = ac_attendance_date d1"
  shows "(\<exists>r2 db2. mark_session_attendance session_id d2 db1 c1 = (Inr r2, db2)) \<and>
         (\<forall>c2 r2 db2. mark_session_attendance session_id d2 db1 c2 = (Inr r2, db2) \<longrightarrow>
            attendance_for session_id (ac_user_id d1) (ac_attendance_date d1) db2 = [ar_attendance r2]
            \<and> a_status (ar_attendance r2) = ac_status d2
            \<and> length (session_attendances db2) = length (session_attendances db1))"
proof (intro conjI allI impI)
  show "\<exists>r2 db2. mark_session_attendance session_id d2 db1 c1 = (Inr r2, db2)"
    using mark_session_attendance_again[OF first same(1)] .
next
  fix c2 r2 db2
  assume second: "mark_session_attendance session_id d2 db1 c2 = (Inr r2, db2)"
  from mark_session_attendance_single[OF first before]
  have one: "attendance_for session_id (ac_user_id d1) (ac_attendance_date d1) db1 = [ar_attendance r1]"
    by simp
  then have le: "length (attendance_for session_id (ac_user_id d2) (ac_attendance_date d2) db1) \<le> 1"
    and ne: "attendance_for session_id (ac_user_id d2) (ac_attendance_date d2) db1 \<noteq> []"
    by (simp_all add: same)
  from mark_session_attendance_single[OF second le]
  show "attendance_for session_id (ac_user_id d1) (ac_attendance_date d1) db2 = [ar_attendance r2]"
    and "a_status (ar_attendance r2) = ac_status d2"
    by (simp_all add: same)
  from mark_session_attendance_no_insert[OF second ne]
  show "length (session_attendances db2) = length (session_attendances db1)" .
qed

theorem mark_session_attendance_upsert_witness:
  "length (attendance_for 1 3 (Date 2024 6 1) gym) \<le> 1
   \<and> attendance_for 1 3 (Date 2024 6 1)
        (snd (mark_session_attendance 1 (booking 3 ''attended'' (Date 2024 6 1))
               (snd (mark_session_attendance 1 (booking 3 ''booked'' (Date 2024 6 1)) gym nils))
               nils))
       = [\<lparr>a_id = 3, a_session_id = 1, a_user_id = 3, a_status = ''attended'',
           a_attendance_date = Date 2024 6 1\<rparr>]"
proof -
  let ?b1 = "booking 3 ''booked'' (Date 2024 6 1)"
  let ?b2 = "booking 3 ''attended'' (Date 2024 6 1)"
  let ?row = "\<lambda>st. \<lparr>a_id = 3, a_session_id = 1, a_user_id = 3, a_status = st,
                      a_attendance_date = Date 2024 6 1\<rparr>"
  let ?user = "\<lparr>u_id = 3, u_name = ''Nils'', u_role = ''member'', u_branch = Some ''Y''\<rparr>"
  let ?db1 = "gym\<lparr>session_attendances := session_attendances gym @ [?row ''booked'']\<rparr>"
  let ?db2 = "gym\<lparr>session_attendances := session_attendances gym @ [?row ''attended'']\<rparr>"
  have before: "length (attendance_for 1 (ac_user_id ?b1) (ac_attendance_date ?b1) gym) \<le> 1"
    by (simp add: attendance_for_def gym_def booking_def)
  have first: "mark_session_attendance 1 ?b1 gym nils
                 = (Inr \<lparr>ar_attendance = ?row ''booked'', ar_user = Some ?user\<rparr>, ?db1)"
    by (simp add: mark_session_attendance_def gym_def yoga_def nils_def booking_def next_id_def Let_def)
  have second: "mark_session_attendance 1 ?b2 ?db1 nils
                 = (Inr \<lparr>ar_attendance = ?row ''attended'', ar_user = Some ?user\<rparr>, ?db2)"
    by (simp add: mark_session_attendance_def gym_def yoga_def nils_def booking_def Let_def)
  have same: "ac_user_id ?b2 = ac_user_id ?b1" "ac_attendance_date ?b2 = ac_attendance_date ?b1"
    by (simp_all add: booking_def)
  from mark_session_attendance_upsert[OF before first same] second
  have after: "attendance_for 1 3 (Date 2024 6 1) ?db2 = [?row ''attended'']"
    by (simp add: booking_def)
  from before have before': "length (attendance_for 1 3 (Date 2024 6 1) gym) \<le> 1"
    by (simp add: booking_def)
  show ?thesis
    unfolding first second snd_conv using before' after by simp
qed

section \<open>Attendance uniqueness\<close>

text \<open>Creation and deletion keep the tuples of the stored records distinct.\<close>

lemma key_status_update:
  "map attendance_key (map (\<lambda>a. if a_id a = i then a\<lparr>a_status := st\<rparr> else a) xs)
     = map attendance_key xs"
  by (induction xs) (simp_all add: attendance_key_def)

lemma mark_session_attendance_unique:
  assumes "mark_session_attendance sid d db c = (Inr r, db')" and "attendance_unique db"
  shows "attendance_unique db'"
proof -
  let ?P = "\<lambda>a. a_session_id a = sid \<and> a_user_id a = ac_user_id d
                      \<and> a_attendance_date a = ac_attendance_date d"
  show ?thesis
  proof (cases "find ?P (session_attendances db)")
    case None
    then have none: "\<forall>a\<in>set (session_attendances db). \<not> ?P a"
      by (simp add: find_None_iff)
    from mark_session_attendance_cases[OF assms(1)] None
    have db': "session_attendances db' = session_attendances db @ [ar_attendance r]"
      and key: "attendance_key (ar_attendance r) = (sid, ac_user_id d, ac_attendance_date d)"
      by (auto simp: attendance_key_def)
    from none have "(sid, ac_user_id d, ac_attendance_date d)
                      \<notin> attendance_key ` set (session_attendances db)"
      by (auto simp: attendance_key_def)
    with assms(2) show ?thesis
      by (simp add: attendance_unique_def db' key)
  next
    case (Some e)
    from mark_session_attendance_cases[OF assms(1)] Some
    have "session_attendances db' =
            map (\<lambda>a. if a_id a = a_id e then a\<lparr>a_status := ac_status d\<rparr> else a)
              (session_attendances db)"
      by auto
    with assms(2) show ?thesis
      by (simp only: attendance_unique_def key_status_update)
  qed
qed

lemma delete_session_attendance_unique:
  assumes "delete_session_attendance aid db c = (r, db')" and "attendance_unique db"
  shows "attendance_unique db'"
proof -
  from assms(1) have "session_attendances db' = session_attendances db
      \<or> (\<exists>i. session_attendances db' = filter (\<lambda>a. a_id a \<noteq> i) (session_attendances db))"
    unfolding delete_session_attendance_def
    by (auto split: option.splits sum.splits if_splits)
  with assms(2) show ?thesis
    by (auto simp: attendance_unique_def distinct_map_filter)
qed

text \<open>
  Claim C2. The update endpoint writes \<open>attendance_date\<close> (and, for a trainer, \<open>user_id\<close>)
  without looking for a record that already holds the new tuple. In the gym Mira has booked
  Yoga for 1 June and for 8 June; she moves her second booking to 1 June, the update
  succeeds, and two records now hold the tuple \<open>(1, 2, 2024-06-01)\<close>.
\<close>

theorem update_session_attendance_duplicates:
  "attendance_unique gym
   \<and> update_session_attendance 2 (booking 2 ''booked'' (Date 2024 6 1)) gym mira
       = (Inr \<lparr>ar_attendance =
                 \<lparr>a_id = 2, a_session_id = 1, a_user_id = 2, a_status = ''booked'',
                  a_attendance_date = Date 2024 6 1\<rparr>,
               ar_user =
                 Some \<lparr>u_id = 2, u_name = ''Mira'', u_role = ''member'', u_branch = Some ''X''\<rparr>\<rparr>,
          gym\<lparr>session_attendances :=
                [\<lparr>a_id = 1, a_session_id = 1, a_user_id = 2, a_status = ''booked'',
                  a_attendance_date = Date 2024 6 1\<rparr>,
                 \<lparr>a_id = 2, a_session_id = 1, a_user_id = 2, a_status = ''booked'',
                  a_attendance_date = Date 2024 6 1\<rparr>]\<rparr>)
   \<and> \<not> attendance_unique
         (snd (update_session_attendance 2 (booking 2 ''booked'' (Date 2024 6 1)) gym mira))"
  by (simp add: attendance_unique_def attendance_key_def update_session_attendance_def
        gym_def mira_def booking_def Let_def)

section \<open>Sessions: absence and ownership\<close>

text \<open>
  Claim C3, as stated, fails: Ben is a trainer, the Yoga session exists and belongs to Asha,
  and both his update and his delete of it are answered with 404, the answer an absent
  session gets, not with 403.
\<close>

theorem session_not_owned_counterexample:
  "map session_fixed (session_schedules gym) = [(1, 1, Some ''X'')]
   \<and> ur_role ben = ''trainer'' \<and> ur_id ben = 4
   \<and> router toy_hash (Some ben) (PUT_sessions 1 pilates) gym
       = (Inl (HTTPException 404 ''Session not found or not created by this trainer.''), gym)
   \<and> router toy_hash (Some ben) (DELETE_sessions 1) gym
       = (Inl (HTTPException 404 ''Session not found or not created by this trainer.''), gym)"
  by (simp add: route_defs update_session_def delete_session_def session_fixed_def
        gym_def yoga_def ben_def)

text \<open>
  Claim C3, amended. For a trainer caller, a session id under which the caller owns no
  session, whether no session has the id or another trainer owns it, makes update and delete
  fail with the same 404, and the database is returned unchanged.
\<close>

theorem session_update_delete_not_found:
  assumes "ur_role c = ''trainer''"
    and "\<forall>s\<in>set (session_schedules db). s_id s = session_id \<longrightarrow> s_trainer_id s \<noteq> ur_id c"
  shows "router h (Some c) (PUT_sessions session_id session_update) db
           = (Inl (HTTPException 404 ''Session not found or not created by this trainer.''), db)
         \<and> router h (Some c) (DELETE_sessions session_id) db
           = (Inl (HTTPException 404 ''Session not found or not created by this trainer.''), db)"
proof -
  from assms(2)
  have "find (\<lambda>s. s_id s = session_id \<and> s_trainer_id s = ur_id c) (session_schedules db) = None"
    by (rule find_None_conj)
  with assms(1) show ?thesis
    by (simp add: route_defs update_session_def delete_session_def)
qed

theorem session_update_delete_not_found_witness:
  "ur_role asha = ''trainer''
   \<and> map s_id (session_schedules gym) = [1]
   \<and> router toy_hash (Some asha) (PUT_sessions 99 pilates) gym
       = (Inl (HTTPException 404 ''Session not found or not created by this trainer.''), gym)
   \<and> router toy_hash (Some asha) (DELETE_sessions 99) gym
       = (Inl (HTTPException 404 ''Session not found or not created by this trainer.''), gym)"
proof -
  have role: "ur_role asha = ''trainer''" by (simp add: asha_def)
  have none: "\<forall>s\<in>set (session_schedules gym). s_id s = 99 \<longrightarrow> s_trainer_id s \<noteq> ur_id asha"
    by (simp add: gym_def yoga_def)
  have ids: "map s_id (session_schedules gym) = [1]"
    by (simp add: gym_def yoga_def)
  from session_update_delete_not_found[OF role none, of toy_hash pilates] role ids
  show ?thesis by (intro conjI) simp_all
qed

section \<open>Sessions: owner and branch\<close>

lemma create_session_cases:
  assumes "create_session session db T = (Inr S, db1)"
  shows "truthy (ur_branch T) \<and> s_id S = next_id (map s_id (session_schedules db))
         \<and> s_trainer_id S = ur_id T \<and> s_branch_name S = ur_branch T
         \<and> db1 = db\<lparr>session_schedules := session_schedules db @ [S]\<rparr>"
  using assms unfolding create_session_def
  by (auto simp: Let_def split: if_splits)

lemma create_session_stored:
  assumes "create_session session db T = (Inr S, db1)"
  shows "find (\<lambda>s. s_id s = s_id S) (session_schedules db1) = Some S"
proof -
  from create_session_cases[OF assms]
  have id: "s_id S = next_id (map s_id (session_schedules db))"
    and db1: "session_schedules db1 = session_schedules db @ [S]" by auto
  have "\<forall>x\<in>set (session_schedules db). s_id x \<noteq> s_id S"
    using next_id_fresh[of _ "map s_id (session_schedules db)"] unfolding id by fastforce
  from find_fresh_append[of "session_schedules db" s_id S, OF this] show ?thesis
    by (simp add: db1)
qed

lemma update_session_writes:
  assumes "update_session session_id session_update db c = (Inr r, db')"
  shows "session_schedules db' =
           map (\<lambda>s. if s_id s = session_id
                     then s\<lparr>s_session_name := sc_session_name session_update,
                            s_session_date := sc_session_date session_update,
                            s_start_time := sc_start_time session_update,
                            s_end_time := sc_end_time session_update,
                            s_max_capacity := sc_max_capacity session_update,
                            s_description := sc_description session_update\<rparr>
                     else s) (session_schedules db)"
proof -
  let ?P = "\<lambda>s. s_id s = session_id \<and> s_trainer_id s = ur_id c"
  from assms obtain e where e: "find ?P (session_schedules db) = Some e"
    unfolding update_session_def by (auto split: option.splits)
  then have "s_id e = session_id" by (auto simp: find_Some_iff)
  with assms e show ?thesis
    unfolding update_session_def by (auto simp: Let_def)
qed

lemma update_session_fixed:
  assumes "update_session session_id session_update db c = (Inr r, db')"
  shows "map session_fixed (session_schedules db') = map session_fixed (session_schedules db)"
  unfolding update_session_writes[OF assms]
  by (induction "session_schedules db") (simp_all add: session_fixed_def)

lemma session_updates_fixed:
  assumes "session_updates db db'"
  shows "map session_fixed (session_schedules db') = map session_fixed (session_schedules db)"
  using assms
proof (induction rule: session_updates.induct)
  case (no_update db)
  show ?case by simp
next
  case (one_more db db1 session_id session_update current_trainer r db2)
  from update_session_fixed[OF one_more.hyps(2)] one_more.IH show ?case by simp
qed

lemma find_by_id_fixed:
  assumes "map session_fixed xs' = map session_fixed xs"
    and "find (\<lambda>s. s_id s = i) xs = Some S"
  shows "\<exists>S'. find (\<lambda>s. s_id s = i) xs' = Some S' \<and> session_fixed S' = session_fixed S"
  using assms
proof (induction xs arbitrary: xs')
  case Nil
  then show ?case by simp
next
  case (Cons x xs)
  from Cons.prems(1) obtain x' ys where xs': "xs' = x' # ys"
    and hd: "session_fixed x' = session_fixed x"
    and tl: "map session_fixed ys = map session_fixed xs"
    by (cases xs') auto
  from hd have id: "s_id x' = s_id x" by (simp add: session_fixed_def)
  show ?case
  proof (cases "s_id x = i")
    case True
    with Cons.prems(2) hd id show ?thesis by (simp add: xs')
  next
    case False
    with Cons.prems(2) have "find (\<lambda>s. s_id s = i) xs = Some S" by simp
    from Cons.IH[OF tl this] False id show ?thesis by (simp add: xs')
  qed
qed

text \<open>
  Claim C4. A session a trainer succeeds in creating carries the trainer's id and branch
  and is stored under its key. Whatever successful session updates follow, by whichever
  callers, every stored session keeps its key, owner and branch, so the created session is
  still found with the creator's id and branch; and one more successful update writes the
  six payload columns of the session with the given id and nothing else.
\<close>

theorem session_owner_branch_fixed:
  assumes created: "create_session session db T = (Inr S, db1)"
    and later: "session_updates db1 db2"
  shows "s_trainer_id S = ur_id T \<and> s_branch_name S = ur_branch T
         \<and> find (\<lambda>s. s_id s = s_id S) (session_schedules db1) = Some S
         \<and> map session_fixed (session_schedules db2) = map session_fixed (session_schedules db1)
         \<and> (\<exists>S'. find (\<lambda>s. s_id s = s_id S) (session_schedules db2) = Some S'
                 \<and> s_trainer_id S' = ur_id T \<and> s_branch_name S' = ur_branch T)
         \<and> (\<forall>session_id session_update c r db3.
               update_session session_id session_update db2 c = (Inr r, db3) \<longrightarrow>
               session_schedules db3 =
                 map (\<lambda>s. if s_id s = session_id
                           then s\<lparr>s_session_name := sc_session_name session_update,
                                  s_session_date := sc_session_date session_update,
                                  s_start_time := sc_start_time session_update,
                                  s_end_time := sc_end_time session_update,
                                  s_max_capacity := sc_max_capacity session_update,
                                  s_description := sc_description session_update\<rparr>
                           else s) (session_schedules db2))"
proof -
  from create_session_cases[OF created]
  have own: "s_trainer_id S = ur_id T" "s_branch_name S = ur_branch T" by auto
  note stored = create_session_stored[OF created]
  note fixed = session_updates_fixed[OF later]
  from find_by_id_fixed[OF fixed stored] obtain S'
    where S': "find (\<lambda>s. s_id s = s_id S) (session_schedules db2) = Some S'"
      and eq: "session_fixed S' = session_fixed S" by blast
  from eq own have "s_trainer_id S' = ur_id T \<and> s_branch_name S' = ur_branch T"
    by (simp add: session_fixed_def)
  with S' own stored fixed show ?thesis
    using update_session_writes by blast
qed

theorem session_owner_branch_fixed_witness:
  "truthy (ur_branch asha)
   \<and> map session_fixed (session_schedules (snd (create_session pilates gym asha)))
       = [(1, 1, Some ''X''), (2, 1, Some ''X'')]
   \<and> session_updates (snd (create_session pilates gym asha))
       (snd (update_session 2 evening (snd (create_session pilates gym asha)) asha))
   \<and> map session_fixed
       (session_schedules
          (snd (update_session 2 evening (snd (create_session pilates gym asha)) asha)))
       = [(1, 1, Some ''X''), (2, 1, Some ''X'')]"
proof -
  let ?S = "\<lparr>s_id = 2, s_trainer_id = 1, s_session_name = ''Pilates'',
             s_session_date = Date 2024 6 2, s_start_time = Time 18 0,
             s_end_time = Time 19 0, s_branch_name = Some ''X'', s_max_capacity = 12,
             s_description = Some ''mat''\<rparr>"
  let ?S' = "\<lparr>s_id = 2, s_trainer_id = 1, s_session_name = ''Evening Pilates'',
              s_session_date = Date 2024 6 3, s_start_time = Time 19 0,
              s_end_time = Time 20 0, s_branch_name = Some ''X'', s_max_capacity = 10,
              s_description = None\<rparr>"
  let ?db1 = "gym\<lparr>session_schedules := [yoga, ?S]\<rparr>"
  let ?db2 = "gym\<lparr>session_schedules := [yoga, ?S']\<rparr>"
  have branch: "truthy (ur_branch asha)" by (simp add: truthy_def asha_def)
  have created: "create_session pilates gym asha = (Inr ?S, ?db1)"
    by (simp add: create_session_def truthy_def next_id_def Let_def gym_defs)
  have updated: "update_session 2 evening ?db1 asha = (Inr ?S', ?db2)"
    by (simp add: update_session_def Let_def evening_def gym_defs)
  have later: "session_updates ?db1 ?db2"
    by (rule one_more[OF no_update updated])
  have start: "map session_fixed (session_schedules ?db1) = [(1, 1, Some ''X''), (2, 1, Some ''X'')]"
    by (simp add: session_fixed_def gym_defs)
  note kept = session_owner_branch_fixed[OF created later,
      THEN conjunct2, THEN conjunct2, THEN conjunct2, THEN conjunct1]
  have "map session_fixed (session_schedules ?db2) = [(1, 1, Some ''X''), (2, 1, Some ''X'')]"
    unfolding kept by (rule start)
  with branch start later show ?thesis
    unfolding created updated snd_conv by (intro conjI)
qed

section \<open>Attendance of other users\<close>

text \<open>
  Claim C5, as stated, fails for creation: the session is looked up before the caller is
  compared with the submitted \<open>user_id\<close>, so Mira's attempt to book for Nils under a session
  id that does not exist is answered with 404, not with 403.
\<close>

theorem member_create_for_other_counterexample:
  "ur_role mira = ''member'' \<and> ur_id mira = 2
   \<and> map s_id (session_schedules gym) = [1]
   \<and> mark_session_attendance 99 (booking 3 ''booked'' (Date 2024 6 1)) gym mira
       = (Inl (HTTPException 404 ''Session not found.''), gym)"
  by (simp add: mark_session_attendance_def gym_defs)

text \<open>
  Claim C5, amended. For a caller whose role is not trainer: creating attendance for another
  user fails with 403 when the session exists and with 404 when it does not; updating a
  stored record of another user, or submitting another \<open>user_id\<close> for the caller's own
  record, fails with 403; deleting a stored record of another user fails with 403. In every
  case the database is returned unchanged.
\<close>

theorem member_foreign_attendance_forbidden:
  assumes "ur_role c \<noteq> ''trainer''"
  shows "(ac_user_id d \<noteq> ur_id c \<longrightarrow>
            mark_session_attendance session_id d db c =
              (if session_id \<in> s_id ` set (session_schedules db)
               then (Inl (HTTPException 403 ''You can only mark your own attendance.''), db)
               else (Inl (HTTPException 404 ''Session not found.''), db)))
         \<and> (find (\<lambda>a. a_id a = attendance_id) (session_attendances db) = Some a \<longrightarrow>
              a_user_id a \<noteq> ur_id c \<longrightarrow>
              update_session_attendance attendance_id d db c =
                (Inl (HTTPException 403 ''You can only update your own attendance records.''), db)
              \<and> delete_session_attendance attendance_id db c =
                (Inl (HTTPException 403 ''You can only cancel your own session bookings.''), db))
         \<and> (find (\<lambda>a. a_id a = attendance_id) (session_attendances db) = Some a \<longrightarrow>
              a_user_id a = ur_id c \<longrightarrow> ac_user_id d \<noteq> ur_id c \<longrightarrow>
              update_session_attendance attendance_id d db c =
                (Inl (HTTPException 403 ''You cannot change the user_id for attendance records.''),
                 db))"
proof (intro conjI impI)
  assume other: "ac_user_id d \<noteq> ur_id c"
  show "mark_session_attendance session_id d db c =
          (if session_id \<in> s_id ` set (session_schedules db)
           then (Inl (HTTPException 403 ''You can only mark your own attendance.''), db)
           else (Inl (HTTPException 404 ''Session not found.''), db))"
  proof (cases "session_id \<in> s_id ` set (session_schedules db)")
    case True
    from find_by_key_Some[OF True] obtain s
      where "find (\<lambda>s. s_id s = session_id) (session_schedules db) = Some s" ..
    with assms other True show ?thesis
      by (simp add: mark_session_attendance_def)
  next
    case False
    then have "find (\<lambda>s. s_id s = session_id) (session_schedules db) = None"
      by (auto simp: find_None_iff)
    with False show ?thesis
      by (simp add: mark_session_attendance_def)
  qed
next
  assume "find (\<lambda>a. a_id a = attendance_id) (session_attendances db) = Some a"
    and "a_user_id a \<noteq> ur_id c"
  with assms show "update_session_attendance attendance_id d db c =
      (Inl (HTTPException 403 ''You can only update your own attendance records.''), db)"
    by (simp add: update_session_attendance_def)
next
  assume "find (\<lambda>a. a_id a = attendance_id) (session_attendances db) = Some a"
    and "a_user_id a \<noteq> ur_id c"
  with assms show "delete_session_attendance attendance_id db c =
      (Inl (HTTPException 403 ''You can only cancel your own session bookings.''), db)"
    by (simp add: delete_session_attendance_def)
next
  assume "find (\<lambda>a. a_id a = attendance_id) (session_attendances db) = Some a"
    and "a_user_id a = ur_id c" and "ac_user_id d \<noteq> ur_id c"
  with assms show "update_session_attendance attendance_id d db c =
      (Inl (HTTPException 403 ''You cannot change the user_id for attendance records.''), db)"
    by (simp add: update_session_attendance_def)
qed

theorem member_foreign_attendance_forbidden_witness:
  "mark_session_attendance 1 (booking 2 ''booked'' (Date 2024 6 15)) gym nils
     = (Inl (HTTPException 403 ''You can only mark your own attendance.''), gym)
   \<and> update_session_attendance 1 (booking 2 ''cancelled'' (Date 2024 6 1)) gym nils
     = (Inl (HTTPException 403 ''You can only update your own attendance records.''), gym)
   \<and> delete_session_attendance 1 gym nils
     = (Inl (HTTPException 403 ''You can only cancel your own session bookings.''), gym)
   \<and> update_session_attendance 1 (booking 3 ''booked'' (Date 2024 6 1)) gym mira
     = (Inl (HTTPException 403 ''You cannot change the user_id for attendance records.''), gym)"
proof -
  let ?a = "\<lparr>a_id = 1, a_session_id = 1, a_user_id = 2, a_status = ''booked'',
             a_attendance_date = Date 2024 6 1\<rparr>"
  have role: "ur_role nils \<noteq> ''trainer''" "ur_role mira \<noteq> ''trainer''"
    by (simp_all add: gym_defs)
  have stored: "find (\<lambda>a. a_id a = 1) (session_attendances gym) = Some ?a"
    by (simp add: gym_defs)
  have session: "(1::int) \<in> s_id ` set (session_schedules gym)"
    by (simp add: gym_defs)
  have ids: "ac_user_id (booking 2 ''booked'' (Date 2024 6 15)) \<noteq> ur_id nils"
    "a_user_id ?a \<noteq> ur_id nils" "a_user_id ?a = ur_id mira"
    "ac_user_id (booking 3 ''booked'' (Date 2024 6 1)) \<noteq> ur_id mira"
    by (simp_all add: gym_defs)
  note n = member_foreign_attendance_forbidden[OF role(1),
      of "booking 2 ''booked'' (Date 2024 6 15)" 1 gym 1 ?a]
  note n' = member_foreign_attendance_forbidden[OF role(1),
      of "booking 2 ''cancelled'' (Date 2024 6 1)" 1 gym 1 ?a]
  note m = member_foreign_attendance_forbidden[OF role(2),
      of "booking 3 ''booked'' (Date 2024 6 1)" 1 gym 1 ?a]
  from n ids(1) session
  have 1: "mark_session_attendance 1 (booking 2 ''booked'' (Date 2024 6 15)) gym nils
     = (Inl (HTTPException 403 ''You can only mark your own attendance.''), gym)"
    by simp
  from n' stored ids(2)
  have 2: "update_session_attendance 1 (booking 2 ''cancelled'' (Date 2024 6 1)) gym nils
     = (Inl (HTTPException 403 ''You can only update your own attendance records.''), gym)"
    and 3: "delete_session_attendance 1 gym nils
     = (Inl (HTTPException 403 ''You can only cancel your own session bookings.''), gym)"
    by simp_all
  from m stored ids(3,4)
  have 4: "update_session_attendance 1 (booking 3 ''booked'' (Date 2024 6 1)) gym mira
     = (Inl (HTTPException 403 ''You cannot change the user_id for attendance records.''), gym)"
    by simp
  from 1 2 3 4 show ?thesis by (intro conjI)
qed

section \<open>The subject of a plan\<close>

text \<open>
  Claim C6. Let the caller be a trainer and let the plan stored under \<open>plan_id\<close> belong to
  the caller. An update that submits a \<open>user_id\<close> other than the plan's is answered with
  400 and the database, the plan with it, is returned unchanged. This holds for diet plans and
  for exercise plans.
\<close>

theorem plan_update_user_immutable:
  assumes "ur_role c = ''trainer''"
  shows "(find (\<lambda>p. dp_id p = plan_id) (diet_plans db) = Some p \<longrightarrow> owns_diet_plan c p \<longrightarrow>
            dpc_user_id u \<noteq> dp_user_id p \<longrightarrow>
            router h (Some c) (PUT_diet_plans plan_id u) db =
              (Inl (HTTPException 400 ''User of a diet plan cannot be changed after assignment.''),
               db))
         \<and> (find (\<lambda>p. ep_id p = plan_id) (exercise_plans db) = Some q \<longrightarrow>
              owns_exercise_plan c q \<longrightarrow> epc_user_id v \<noteq> ep_user_id q \<longrightarrow>
              router h (Some c) (PUT_exercise_plans plan_id v) db =
                (Inl (HTTPException 400
                   ''User of an exercise plan cannot be changed after assignment.''), db))"
proof (intro conjI impI)
  assume "find (\<lambda>p. dp_id p = plan_id) (diet_plans db) = Some p" and "owns_diet_plan c p"
    and differs: "dpc_user_id u \<noteq> dp_user_id p"
  then have "find (\<lambda>p. dp_id p = plan_id
                        \<and> (dp_assigned_by_trainer_id p = ur_id c \<and> dp_branch_name p = ur_branch c))
               (diet_plans db) = Some p"
    by (intro find_conj_Some) (simp_all add: owns_diet_plan_def)
  with assms differs
  show "router h (Some c) (PUT_diet_plans plan_id u) db =
          (Inl (HTTPException 400 ''User of a diet plan cannot be changed after assignment.''), db)"
    by (simp add: route_defs update_diet_plan_def)
next
  assume "find (\<lambda>p. ep_id p = plan_id) (exercise_plans db) = Some q"
    and "owns_exercise_plan c q" and differs: "epc_user_id v \<noteq> ep_user_id q"
  then have "find (\<lambda>p. ep_id p = plan_id
                        \<and> (ep_assigned_by_trainer_id p = ur_id c \<and> ep_branch_name p = ur_branch c))
               (exercise_plans db) = Some q"
    by (intro find_conj_Some) (simp_all add: owns_exercise_plan_def)
  with assms differs
  show "router h (Some c) (PUT_exercise_plans plan_id v) db =
          (Inl (HTTPException 400
             ''User of an exercise plan cannot be changed after assignment.''), db)"
    by (simp add: route_defs update_exercise_plan_def)
qed

theorem plan_update_user_immutable_witness:
  "router toy_hash (Some asha) (PUT_diet_plans 1 to_nils) gym =
     (Inl (HTTPException 400 ''User of a diet plan cannot be changed after assignment.''), gym)
   \<and> router toy_hash (Some asha) (PUT_exercise_plans 1 to_nils_too) gym =
     (Inl (HTTPException 400 ''User of an exercise plan cannot be changed after assignment.''),
      gym)"
proof -
  let ?p = "\<lparr>dp_id = 1, dp_user_id = 2, dp_assigned_by_trainer_id = 1, dp_title = ''Lean'',
             dp_description = None, dp_assigned_date = Date 2024 5 1, dp_expiry_date = None,
             dp_branch_name = Some ''X''\<rparr>"
  let ?q = "\<lparr>ep_id = 1, ep_user_id = 2, ep_assigned_by_trainer_id = 1, ep_title = ''Core'',
             ep_description = None, ep_assigned_date = Date 2024 5 1, ep_expiry_date = None,
             ep_branch_name = Some ''X''\<rparr>"
  have role: "ur_role asha = ''trainer''" by (simp add: gym_defs)
  have diet: "find (\<lambda>p. dp_id p = 1) (diet_plans gym) = Some ?p" "owns_diet_plan asha ?p"
    "dpc_user_id to_nils \<noteq> dp_user_id ?p"
    by (simp_all add: gym_defs owns_diet_plan_def to_nils_def)
  have exercise: "find (\<lambda>p. ep_id p = 1) (exercise_plans gym) = Some ?q"
    "owns_exercise_plan asha ?q" "epc_user_id to_nils_too \<noteq> ep_user_id ?q"
    by (simp_all add: gym_defs owns_exercise_plan_def to_nils_too_def)
  note inst = plan_update_user_immutable[OF role, of 1 gym ?p to_nils toy_hash ?q to_nils_too]
  from inst diet exercise show ?thesis by blast
qed

section \<open>Listing trainers\<close>

text \<open>
  Claim C7, as stated, fails where the branch is the empty string: the filter is applied
  under \<open>if current_user.branch:\<close>, which the empty string fails. Olu is a member whose
  branch is not null but empty, and receives the trainers of branches X and Y.
\<close>

theorem get_trainers_empty_branch_counterexample:
  "ur_role olu = ''member'' \<and> ur_branch olu = Some []
   \<and> map t_branch_name (trainers gym) = [Some ''X'', Some ''Y'']
   \<and> router toy_hash (Some olu) GET_trainers gym =
       (Inr (TrainerListResponse
          [trainer_from_orm asha_row [''yoga'', ''pilates''], trainer_from_orm zoe_row []]),
        gym)"
  by (simp add: route_defs get_trainers_def truthy_def specialization_list_def gym_defs)

text \<open>
  Claim C7, amended. An admin whose branch is a non-empty string receives exactly the
  trainers of that branch, and an admin whose branch is null or empty gets 400 and no
  trainer. A superadmin receives all trainers. Any other caller receives exactly the
  trainers of their branch when it is a non-empty string, and all trainers when it is null
  or empty. Every trainer comes with the specialization split into a list.
\<close>

theorem get_trainers_scope:
  "(ur_role c = ''admin'' \<longrightarrow> truthy (ur_branch c) \<longrightarrow>
      router h (Some c) GET_trainers db =
        (Inr (TrainerListResponse
           (map (\<lambda>t. trainer_from_orm t (specialization_list (t_specialization t)))
              (filter (\<lambda>t. t_branch_name t = ur_branch c) (trainers db)))), db))
   \<and> (ur_role c = ''admin'' \<longrightarrow> \<not> truthy (ur_branch c) \<longrightarrow>
        router h (Some c) GET_trainers db =
          (Inl (HTTPException 400 ''Admin's branch not specified.''), db))
   \<and> (ur_role c = ''superadmin'' \<longrightarrow>
        router h (Some c) GET_trainers db =
          (Inr (TrainerListResponse
             (map (\<lambda>t. trainer_from_orm t (specialization_list (t_specialization t)))
                (trainers db))), db))
   \<and> (ur_role c \<noteq> ''admin'' \<longrightarrow> ur_role c \<noteq> ''superadmin'' \<longrightarrow> truthy (ur_branch c) \<longrightarrow>
        router h (Some c) GET_trainers db =
          (Inr (TrainerListResponse
             (map (\<lambda>t. trainer_from_orm t (specialization_list (t_specialization t)))
                (filter (\<lambda>t. t_branch_name t = ur_branch c) (trainers db)))), db))
   \<and> (ur_role c \<noteq> ''admin'' \<longrightarrow> ur_role c \<noteq> ''superadmin'' \<longrightarrow> \<not> truthy (ur_branch c) \<longrightarrow>
        router h (Some c) GET_trainers db =
          (Inr (TrainerListResponse
             (map (\<lambda>t. trainer_from_orm t (specialization_list (t_specialization t)))
                (trainers db))), db))"
  by (simp add: route_defs get_trainers_def)

theorem get_trainers_scope_witness:
  "router toy_hash (Some admin_x) GET_trainers gym =
     (Inr (TrainerListResponse [trainer_from_orm asha_row [''yoga'', ''pilates'']]), gym)
   \<and> router toy_hash (Some admin_nowhere) GET_trainers gym =
     (Inl (HTTPException 400 ''Admin's branch not specified.''), gym)
   \<and> router toy_hash (Some root) GET_trainers gym =
     (Inr (TrainerListResponse
        [trainer_from_orm asha_row [''yoga'', ''pilates''], trainer_from_orm zoe_row []]), gym)
   \<and> router toy_hash (Some nils) GET_trainers gym =
     (Inr (TrainerListResponse [trainer_from_orm zoe_row []]), gym)"
proof -
  have admin: "ur_role admin_x = ''admin''" "truthy (ur_branch admin_x)"
    and nowhere: "ur_role admin_nowhere = ''admin''" "\<not> truthy (ur_branch admin_nowhere)"
    and super: "ur_role root = ''superadmin''"
    and member: "ur_role nils \<noteq> ''admin''" "ur_role nils \<noteq> ''superadmin''"
      "truthy (ur_branch nils)"
    by (simp_all add: gym_defs truthy_def)
  have rows: "trainers gym = [asha_row, zoe_row]"
    "t_branch_name asha_row = Some ''X''" "t_branch_name zoe_row = Some ''Y''"
    "ur_branch admin_x = Some ''X''" "ur_branch nils = Some ''Y''"
    "specialization_list (t_specialization asha_row) = [''yoga'', ''pilates'']"
    "specialization_list (t_specialization zoe_row) = []"
    by (simp_all add: gym_defs specialization_list_def)
  from get_trainers_scope[of admin_x toy_hash gym] admin
  have 1: "router toy_hash (Some admin_x) GET_trainers gym =
     (Inr (TrainerListResponse [trainer_from_orm asha_row [''yoga'', ''pilates'']]), gym)"
    by (simp add: rows)
  from get_trainers_scope[of admin_nowhere toy_hash gym] nowhere
  have 2: "router toy_hash (Some admin_nowhere) GET_trainers gym =
     (Inl (HTTPException 400 ''Admin's branch not specified.''), gym)"
    by simp
  from get_trainers_scope[of root toy_hash gym] super
  have 3: "router toy_hash (Some root) GET_trainers gym =
     (Inr (TrainerListResponse
        [trainer_from_orm asha_row [''yoga'', ''pilates''], trainer_from_orm zoe_row []]), gym)"
    by (simp add: rows)
  from get_trainers_scope[of nils toy_hash gym] member
  have 4: "router toy_hash (Some nils) GET_trainers gym =
     (Inr (TrainerListResponse [trainer_from_orm zoe_row []]), gym)"
    by (simp add: rows)
  from 1 2 3 4 show ?thesis by (intro conjI)
qed

section \<open>Splitting and joining the specialization\<close>

lemma str_split_not_Nil: "str_split sep s \<noteq> []"
  by (induction s) (auto split: list.splits)

lemma str_join_Cons: "ys \<noteq> [] \<Longrightarrow> str_join sep (x # ys) = x @ sep @ str_join sep ys"
  by (cases ys) simp_all

lemma str_join_split: "str_join [sep] (str_split sep s) = s"
proof (induction s)
  case Nil
  show ?case by simp
next
  case (Cons c cs)
  show ?case
  proof (cases "c = sep")
    case True
    with Cons show ?thesis by (simp add: str_join_Cons str_split_not_Nil)
  next
    case False
    obtain w ws where ws: "str_split sep cs = w # ws"
      using str_split_not_Nil[of sep cs] by (cases "str_split sep cs") auto
    with Cons False show ?thesis by (cases ws) simp_all
  qed
qed

lemma str_split_pieces: "w \<in> set (str_split sep s) \<Longrightarrow> sep \<notin> set w"
proof (induction s arbitrary: w)
  case Nil
  then show ?case by simp
next
  case (Cons c cs)
  then show ?case
    by (cases "str_split sep cs") (auto split: if_splits)
qed

lemma str_split_free: "sep \<notin> set x \<Longrightarrow> str_split sep x = [x]"
  by (induction x) auto

lemma str_split_append:
  "sep \<notin> set x \<Longrightarrow> str_split sep (x @ sep # rest) = x # str_split sep rest"
  by (induction x) auto

lemma str_split_join:
  "xs \<noteq> [] \<Longrightarrow> \<forall>x\<in>set xs. sep \<notin> set x \<Longrightarrow> str_split sep (str_join [sep] xs) = xs"
proof (induction "[sep]" xs rule: str_join.induct)
  case 1
  then show ?case by simp
next
  case (2 x)
  then show ?case by (simp add: str_split_free)
next
  case (3 x y ys)
  then show ?case by (simp add: str_split_append)
qed

lemma str_join_Nil_iff:
  "\<forall>x\<in>set xs. x \<noteq> [] \<Longrightarrow> str_join sep xs = [] \<longleftrightarrow> xs = []"
  by (induction sep xs rule: str_join.induct) auto

lemma specialization_list_join:
  assumes "\<forall>x\<in>set xs. x \<noteq> [] \<and> CHR '','' \<notin> set x"
  shows "specialization_list (Some (str_join '','' xs)) = xs"
proof (cases "xs = []")
  case True
  then show ?thesis by (simp add: specialization_list_def)
next
  case False
  with assms have "str_join '','' xs \<noteq> []" by (simp add: str_join_Nil_iff)
  moreover from assms False have "str_split (CHR '','') (str_join '','' xs) = xs"
    by (intro str_split_join) auto
  ultimately show ?thesis by (simp add: specialization_list_def)
qed

lemma add_trainer_cases:
  assumes "add_trainer h trainer db admin = (Inr r, db')"
  shows "\<exists>new. t_id new = next_id (map t_id (trainers db))
           \<and> t_specialization new = Some (str_join '','' (tc_specialization trainer))
           \<and> r = trainer_from_orm new (tc_specialization trainer)
           \<and> trainers db' = trainers db @ [new]"
  using assms unfolding add_trainer_def
  by (auto simp: Let_def split: option.splits)

lemma add_trainer_read_back:
  assumes added: "add_trainer h trainer db admin = (Inr r, db')"
    and plain: "\<forall>x\<in>set (tc_specialization trainer). x \<noteq> [] \<and> CHR '','' \<notin> set x"
  shows "get_trainer_by_id (tr_id r) db' = (Inr r, db')"
proof -
  from add_trainer_cases[OF added] obtain new
    where id: "t_id new = next_id (map t_id (trainers db))"
      and spec: "t_specialization new = Some (str_join '','' (tc_specialization trainer))"
      and r: "r = trainer_from_orm new (tc_specialization trainer)"
      and db': "trainers db' = trainers db @ [new]" by blast
  have "\<forall>x\<in>set (trainers db). t_id x \<noteq> t_id new"
    using next_id_fresh[of _ "map t_id (trainers db)"] unfolding id by fastforce
  from find_fresh_append[of "trainers db" t_id new, OF this]
  have "find (\<lambda>t. t_id t = tr_id r) (trainers db') = Some new"
    by (simp add: db' r trainer_from_orm_def)
  then show ?thesis
    by (simp add: get_trainer_by_id_def spec specialization_list_join[OF plain] r)
qed

text \<open>
  Claim C8. Reading a trainer, by id or in the list, returns the stored specialization
  split at the commas, and the empty list when the stored string is empty or absent; the
  split undoes the join: joining its pieces with commas gives the string back, and no piece
  contains a comma. Hence a trainer created with a list of non-empty, comma-free strings is
  answered with that list and read back, by id, as the very response of the creation.
\<close>

theorem specialization_round_trip:
  "(find (\<lambda>t. t_id t = trainer_id) (trainers db) = Some t \<longrightarrow>
      (\<exists>r. router h c (GET_trainer trainer_id) db = (Inr (TrainerResponse r), db)
           \<and> tr_specialization r =
               (case t_specialization t of
                  None \<Rightarrow> []
                | Some s \<Rightarrow> if s = [] then [] else str_split (CHR '','') s)))
   \<and> (get_trainers db u = (Inr rs, db2) \<longrightarrow>
        (\<forall>r\<in>set rs. \<exists>t\<in>set (trainers db).
           tr_id r = t_id t
           \<and> tr_specialization r =
               (case t_specialization t of
                  None \<Rightarrow> []
                | Some s \<Rightarrow> if s = [] then [] else str_split (CHR '','') s)))
   \<and> str_join '','' (str_split (CHR '','') s) = s
   \<and> (\<forall>w\<in>set (str_split (CHR '','') s). CHR '','' \<notin> set w)
   \<and> ((\<forall>x\<in>set (tc_specialization trainer). x \<noteq> [] \<and> CHR '','' \<notin> set x) \<longrightarrow>
        add_trainer h trainer db admin = (Inr r', db') \<longrightarrow>
        tr_specialization r' = tc_specialization trainer
        \<and> get_trainer_by_id (tr_id r') db' = (Inr r', db')
        \<and> (ur_role u = ''superadmin'' \<longrightarrow>
             (\<exists>rs'. get_trainers db' u = (Inr rs', db') \<and> r' \<in> set rs')))"
proof (intro conjI impI ballI)
  assume "find (\<lambda>t. t_id t = trainer_id) (trainers db) = Some t"
  then show "\<exists>r. router h c (GET_trainer trainer_id) db = (Inr (TrainerResponse r), db)
           \<and> tr_specialization r =
               (case t_specialization t of
                  None \<Rightarrow> []
                | Some s \<Rightarrow> if s = [] then [] else str_split (CHR '','') s)"
    by (simp add: route_defs get_trainer_by_id_def trainer_from_orm_def specialization_list_def
          split: option.splits)
next
  fix r
  assume listed: "get_trainers db u = (Inr rs, db2)" and r: "r \<in> set rs"
  let ?f = "\<lambda>t. trainer_from_orm t (specialization_list (t_specialization t))"
  from listed obtain query where rs: "rs = map ?f query"
    and sub: "set query \<subseteq> set (trainers db)"
    unfolding get_trainers_def
    by (auto split: if_splits sum.splits)
  from r rs sub obtain t where t: "t \<in> set (trainers db)" and rt: "r = ?f t" by auto
  from rt have "tr_id r = t_id t
           \<and> tr_specialization r =
               (case t_specialization t of
                  None \<Rightarrow> []
                | Some s \<Rightarrow> if s = [] then [] else str_split (CHR '','') s)"
    by (simp add: trainer_from_orm_def specialization_list_def split: option.splits)
  with t show "\<exists>t\<in>set (trainers db).
           tr_id r = t_id t
           \<and> tr_specialization r =
               (case t_specialization t of
                  None \<Rightarrow> []
                | Some s \<Rightarrow> if s = [] then [] else str_split (CHR '','') s)" ..
next
  show "str_join '','' (str_split (CHR '','') s) = s"
    using str_join_split[of "CHR '',''" s] .
next
  fix w
  assume "w \<in> set (str_split (CHR '','') s)"
  then show "CHR '','' \<notin> set w" by (rule str_split_pieces)
next
  assume plain: "\<forall>x\<in>set (tc_specialization trainer). x \<noteq> [] \<and> CHR '','' \<notin> set x"
    and added: "add_trainer h trainer db admin = (Inr r', db')"
  from add_trainer_cases[OF added]
  show "tr_specialization r' = tc_specialization trainer"
    by (auto simp: trainer_from_orm_def)
  show again: "get_trainer_by_id (tr_id r') db' = (Inr r', db')"
    using add_trainer_read_back[OF added plain] .
  assume super: "ur_role u = ''superadmin''"
  from again obtain new
    where found: "find (\<lambda>t. t_id t = tr_id r') (trainers db') = Some new"
      and r': "r' = trainer_from_orm new (specialization_list (t_specialization new))"
    unfolding get_trainer_by_id_def
    by (auto split: option.splits)
  from found have new: "new \<in> set (trainers db')" by (simp add: find_Some_mem)
  from super new r'
  show "\<exists>rs'. get_trainers db' u = (Inr rs', db') \<and> r' \<in> set rs'"
    by (auto simp: get_trainers_def)
qed

theorem specialization_round_trip_witness:
  "router toy_hash None (GET_trainer 1) gym =
     (Inr (TrainerResponse (trainer_from_orm asha_row [''yoga'', ''pilates''])), gym)
   \<and> add_trainer toy_hash kim gym admin_x =
       (Inr (trainer_from_orm kim_row [''boxing'', ''hiit'']), gym\<lparr>trainers := [asha_row, zoe_row, kim_row]\<rparr>)
   \<and> get_trainer_by_id 3 (gym\<lparr>trainers := [asha_row, zoe_row, kim_row]\<rparr>) =
       (Inr (trainer_from_orm kim_row [''boxing'', ''hiit'']), gym\<lparr>trainers := [asha_row, zoe_row, kim_row]\<rparr>)"
proof -
  let ?db' = "gym\<lparr>trainers := [asha_row, zoe_row, kim_row]\<rparr>"
  let ?r' = "trainer_from_orm kim_row [''boxing'', ''hiit'']"
  have stored: "find (\<lambda>t. t_id t = 1) (trainers gym) = Some asha_row"
    by (simp add: gym_defs)
  have plain: "\<forall>x\<in>set (tc_specialization kim). x \<noteq> [] \<and> CHR '','' \<notin> set x"
    by (simp add: gym_defs)
  have added: "add_trainer toy_hash kim gym admin_x = (Inr ?r', ?db')"
    by (simp add: add_trainer_def next_id_def Let_def toy_hash_def kim_row_def gym_defs)
  note inst = specialization_round_trip[of 1 gym asha_row toy_hash None root "[]" gym "[]" kim
      admin_x ?r' ?db']
  from inst stored obtain r
    where get: "router toy_hash None (GET_trainer 1) gym = (Inr (TrainerResponse r), gym)"
      and spec: "tr_specialization r = [''yoga'', ''pilates'']"
    by (auto simp: asha_row_def)
  from get have "r = trainer_from_orm asha_row (tr_specialization r)"
    by (auto simp: route_defs get_trainer_by_id_def stored trainer_from_orm_def)
  with get spec have 1: "router toy_hash None (GET_trainer 1) gym =
     (Inr (TrainerResponse (trainer_from_orm asha_row [''yoga'', ''pilates''])), gym)"
    by simp
  from inst plain added have "get_trainer_by_id (tr_id ?r') ?db' = (Inr ?r', ?db')"
    by blast
  then have 2: "get_trainer_by_id 3 ?db' = (Inr ?r', ?db')"
    by (simp add: trainer_from_orm_def kim_row_def)
  from 1 added 2 show ?thesis by (intro conjI)
qed

section \<open>Trainer routes without a caller\<close>

lemma update_trainer_found:
  assumes "find (\<lambda>t. t_id t = trainer_id) (trainers db) = Some t"
  shows "\<exists>db'. update_trainer h trainer_id p db =
           (Inr \<lparr>tr_id = trainer_id, tr_name = tc_name p,
                 tr_specialization = tc_specialization p, tr_rating = tc_rating p,
                 tr_experience = tc_experience p, tr_phone = tc_phone p,
                 tr_email = tc_email p, tr_availability = tc_availability p,
                 tr_branch_name = tc_branch_name p\<rparr>, db')
         \<and> find (\<lambda>t. t_id t = trainer_id) (trainers db') =
             Some \<lparr>t_id = trainer_id, t_name = tc_name p,
                   t_specialization = Some (str_join '','' (tc_specialization p)),
                   t_rating = tc_rating p, t_experience = tc_experience p,
                   t_phone = tc_phone p, t_email = tc_email p,
                   t_password = h (tc_password p), t_availability = tc_availability p,
                   t_branch_name = tc_branch_name p\<rparr>"
proof -
  let ?w = "\<lambda>t. t\<lparr>t_name := tc_name p,
                    t_specialization := Some (str_join '','' (tc_specialization p)),
                    t_rating := tc_rating p, t_experience := tc_experience p,
                    t_phone := tc_phone p, t_email := tc_email p,
                    t_password := h (tc_password p), t_availability := tc_availability p,
                    t_branch_name := tc_branch_name p\<rparr>"
  from assms have id: "t_id t = trainer_id" by (auto dest: find_Some_mem)
  have "find (\<lambda>x. t_id x = trainer_id)
          (map (\<lambda>x. if t_id x = t_id t then ?w x else x) (trainers db)) = Some (?w t)"
    by (rule find_map_by_key[OF assms]) simp
  moreover have "?w t = \<lparr>t_id = trainer_id, t_name = tc_name p,
                   t_specialization = Some (str_join '','' (tc_specialization p)),
                   t_rating = tc_rating p, t_experience = tc_experience p,
                   t_phone = tc_phone p, t_email = tc_email p,
                   t_password = h (tc_password p), t_availability = tc_availability p,
                   t_branch_name = tc_branch_name p\<rparr>"
    using id by (cases t) simp
  ultimately show ?thesis
    using assms id by (simp add: update_trainer_def Let_def trainer_from_orm_def)
qed

lemma delete_trainer_found:
  assumes "find (\<lambda>t. t_id t = trainer_id) (trainers db) = Some t"
  shows "\<exists>db'. delete_trainer trainer_id db = (Inr ''Trainer deleted successfully'', db')
         \<and> find (\<lambda>t. t_id t = trainer_id) (trainers db') = None"
proof -
  from assms have "t_id t = trainer_id" by (auto dest: find_Some_mem)
  with assms show ?thesis
    by (simp add: delete_trainer_def find_filter_out)
qed

lemma trainer_errors:
  "fst (get_trainer_by_id i db) = Inl e \<Longrightarrow> status_code e = 404"
  "fst (update_trainer h i p db) = Inl e \<Longrightarrow> status_code e = 404"
  "fst (delete_trainer i db) = Inl e \<Longrightarrow> status_code e = 404"
  by (auto simp: get_trainer_by_id_def update_trainer_def delete_trainer_def Let_def
        split: option.splits)

text \<open>
  Claim C9. The three routes on \<open>/{trainer_id}\<close> give the same outcome for any two caller
  contexts, an absent caller included. For a stored trainer the read returns the trainer,
  the update answers with the payload and leaves under the id a row that carries every
  payload column, the branch and the hash of the submitted password among them, and the
  delete leaves no row under the id. The only error any of the three can give is 404.
\<close>

theorem trainer_routes_ignore_caller:
  "router h c1 (GET_trainer i) db = router h c2 (GET_trainer i) db
   \<and> router h c1 (PUT_trainer i p) db = router h c2 (PUT_trainer i p) db
   \<and> router h c1 (DELETE_trainer i) db = router h c2 (DELETE_trainer i) db
   \<and> (find (\<lambda>t. t_id t = i) (trainers db) = Some t \<longrightarrow>
        router h c1 (GET_trainer i) db =
          (Inr (TrainerResponse
             (trainer_from_orm t (specialization_list (t_specialization t)))), db)
        \<and> (\<exists>db'. router h c1 (PUT_trainer i p) db =
                    (Inr (TrainerResponse
                       \<lparr>tr_id = i, tr_name = tc_name p,
                        tr_specialization = tc_specialization p, tr_rating = tc_rating p,
                        tr_experience = tc_experience p, tr_phone = tc_phone p,
                        tr_email = tc_email p, tr_availability = tc_availability p,
                        tr_branch_name = tc_branch_name p\<rparr>), db')
                  \<and> find (\<lambda>t. t_id t = i) (trainers db') =
                      Some \<lparr>t_id = i, t_name = tc_name p,
                            t_specialization = Some (str_join '','' (tc_specialization p)),
                            t_rating = tc_rating p, t_experience = tc_experience p,
                            t_phone = tc_phone p, t_email = tc_email p,
                            t_password = h (tc_password p),
                            t_availability = tc_availability p,
                            t_branch_name = tc_branch_name p\<rparr>)
        \<and> (\<exists>db'. router h c1 (DELETE_trainer i) db =
                    (Inr (Message ''Trainer deleted successfully''), db')
                  \<and> find (\<lambda>t. t_id t = i) (trainers db') = None))
   \<and> (\<forall>e. fst (router h c1 (GET_trainer i) db) = Inl e
            \<or> fst (router h c1 (PUT_trainer i p) db) = Inl e
            \<or> fst (router h c1 (DELETE_trainer i) db) = Inl e \<longrightarrow> status_code e = 404)"
proof (intro conjI impI allI)
  show "router h c1 (GET_trainer i) db = router h c2 (GET_trainer i) db"
    and "router h c1 (PUT_trainer i p) db = router h c2 (PUT_trainer i p) db"
    and "router h c1 (DELETE_trainer i) db = router h c2 (DELETE_trainer i) db"
    by (simp_all add: router_def)
next
  assume "find (\<lambda>t. t_id t = i) (trainers db) = Some t"
  then show "router h c1 (GET_trainer i) db =
      (Inr (TrainerResponse (trainer_from_orm t (specialization_list (t_specialization t)))),
       db)"
    by (simp add: router_def respond_def get_trainer_by_id_def)
next
  assume "find (\<lambda>t. t_id t = i) (trainers db) = Some t"
  from update_trainer_found[OF this, of h p]
  show "\<exists>db'. router h c1 (PUT_trainer i p) db =
                    (Inr (TrainerResponse
                       \<lparr>tr_id = i, tr_name = tc_name p,
                        tr_specialization = tc_specialization p, tr_rating = tc_rating p,
                        tr_experience = tc_experience p, tr_phone = tc_phone p,
                        tr_email = tc_email p, tr_availability = tc_availability p,
                        tr_branch_name = tc_branch_name p\<rparr>), db')
                  \<and> find (\<lambda>t. t_id t = i) (trainers db') =
                      Some \<lparr>t_id = i, t_name = tc_name p,
                            t_specialization = Some (str_join '','' (tc_specialization p)),
                            t_rating = tc_rating p, t_experience = tc_experience p,
                            t_phone = tc_phone p, t_email = tc_email p,
                            t_password = h (tc_password p),
                            t_availability = tc_availability p,
                            t_branch_name = tc_branch_name p\<rparr>"
    by (auto simp: router_def respond_def)
next
  assume "find (\<lambda>t. t_id t = i) (trainers db) = Some t"
  from delete_trainer_found[OF this]
  show "\<exists>db'. router h c1 (DELETE_trainer i) db =
                    (Inr (Message ''Trainer deleted successfully''), db')
                  \<and> find (\<lambda>t. t_id t = i) (trainers db') = None"
    by (auto simp: router_def respond_def)
next
  fix e
  assume "fst (router h c1 (GET_trainer i) db) = Inl e
            \<or> fst (router h c1 (PUT_trainer i p) db) = Inl e
            \<or> fst (router h c1 (DELETE_trainer i) db) = Inl e"
  then have "fst (get_trainer_by_id i db) = Inl e \<or> fst (update_trainer h i p db) = Inl e
             \<or> fst (delete_trainer i db) = Inl e"
    by (auto simp: router_def respond_def split: sum.splits)
  then show "status_code e = 404"
    using trainer_errors by blast
qed

theorem trainer_routes_ignore_caller_witness:
  "find (\<lambda>t. t_id t = 2) (trainers gym) = Some zoe_row
   \<and> fst (router toy_hash None (GET_trainer 2) gym) =
       Inr (TrainerResponse (trainer_from_orm zoe_row []))
   \<and> fst (router toy_hash None (PUT_trainer 2 kim) gym) =
       Inr (TrainerResponse
         \<lparr>tr_id = 2, tr_name = ''Kim'', tr_specialization = [''boxing'', ''hiit''],
          tr_rating = 3, tr_experience = 1, tr_phone = ''300'', tr_email = ''kim@gym'',
          tr_availability = Some ''mornings'', tr_branch_name = Some ''Y''\<rparr>)
   \<and> fst (router toy_hash None (DELETE_trainer 2) gym) =
       Inr (Message ''Trainer deleted successfully'')"
proof -
  have stored: "find (\<lambda>t. t_id t = 2) (trainers gym) = Some zoe_row"
    by (simp add: gym_defs)
  note inst = trainer_routes_ignore_caller[of toy_hash None 2 gym "Some root" kim zoe_row]
  from inst stored
  have 1: "router toy_hash None (GET_trainer 2) gym =
      (Inr (TrainerResponse
         (trainer_from_orm zoe_row (specialization_list (t_specialization zoe_row)))), gym)"
    by blast
  from inst stored
  have 2: "\<exists>db'. router toy_hash None (PUT_trainer 2 kim) gym =
                    (Inr (TrainerResponse
                       \<lparr>tr_id = 2, tr_name = tc_name kim,
                        tr_specialization = tc_specialization kim, tr_rating = tc_rating kim,
                        tr_experience = tc_experience kim, tr_phone = tc_phone kim,
                        tr_email = tc_email kim, tr_availability = tc_availability kim,
                        tr_branch_name = tc_branch_name kim\<rparr>), db')"
    by blast
  from inst stored
  have 3: "\<exists>db'. router toy_hash None (DELETE_trainer 2) gym =
                    (Inr (Message ''Trainer deleted successfully''), db')"
    by blast
  from 1 have "fst (router toy_hash None (GET_trainer 2) gym) =
       Inr (TrainerResponse (trainer_from_orm zoe_row []))"
    by (simp add: zoe_row_def specialization_list_def)
  moreover from 2 have "fst (router toy_hash None (PUT_trainer 2 kim) gym) =
       Inr (TrainerResponse
         \<lparr>tr_id = 2, tr_name = ''Kim'', tr_specialization = [''boxing'', ''hiit''],
          tr_rating = 3, tr_experience = 1, tr_phone = ''300'', tr_email = ''kim@gym'',
          tr_availability = Some ''mornings'', tr_branch_name = Some ''Y''\<rparr>)"
    by (auto simp: kim_def)
  moreover from 3 have "fst (router toy_hash None (DELETE_trainer 2) gym) =
       Inr (Message ''Trainer deleted successfully'')"
    by auto
  ultimately show ?thesis using stored by (intro conjI)
qed

section \<open>Booking across branches\<close>

text \<open>
  Claim C10. A caller who is not a trainer, is stored as a user and submits their own id
  succeeds in creating attendance for any stored session, whatever the caller's branch and
  the session's branch are: the answer is the record for the submitted tuple with the
  submitted status, it is stored, and the table has grown by one row when the tuple had no
  record and has kept its length when it had one.
\<close>

theorem member_books_any_branch:
  assumes "ur_role c \<noteq> ''trainer''"
    and "ac_user_id d = ur_id c"
    and "ur_id c \<in> u_id ` set (users db)"
    and "session_id \<in> s_id ` set (session_schedules db)"
  shows "\<exists>r db'. mark_session_attendance session_id d db c = (Inr r, db')
           \<and> attendance_key (ar_attendance r) = (session_id, ur_id c, ac_attendance_date d)
           \<and> a_status (ar_attendance r) = ac_status d
           \<and> ar_attendance r \<in> set (session_attendances db')
           \<and> length (session_attendances db') =
               (if attendance_for session_id (ur_id c) (ac_attendance_date d) db = []
                then length (session_attendances db) + 1
                else length (session_attendances db))"
proof -
  let ?P = "\<lambda>a. a_session_id a = session_id \<and> a_user_id a = ac_user_id d
                      \<and> a_attendance_date a = ac_attendance_date d"
  from find_by_key_Some[OF assms(4)] obtain s
    where s: "find (\<lambda>s. s_id s = session_id) (session_schedules db) = Some s" ..
  from find_by_key_Some[OF assms(3)] obtain u
    where u: "find (\<lambda>u. u_id u = ur_id c) (users db) = Some u" ..
  show ?thesis
  proof (cases "find ?P (session_attendances db)")
    case None
    then have "attendance_for session_id (ur_id c) (ac_attendance_date d) db = []"
      using find_None_filter[of ?P "session_attendances db"]
      by (simp add: attendance_for_def assms(2))
    with None s u assms(1,2) show ?thesis
      by (simp add: mark_session_attendance_def Let_def attendance_key_def)
  next
    case (Some e)
    from find_Some_mem[OF Some] have e: "e \<in> set (session_attendances db)" and Pe: "?P e"
      by auto
    from e Pe have "attendance_for session_id (ur_id c) (ac_attendance_date d) db \<noteq> []"
      by (auto simp: attendance_for_def assms(2) filter_empty_conv)
    moreover from e have "e\<lparr>a_status := ac_status d\<rparr>
        \<in> (\<lambda>a. if a_id a = a_id e then a\<lparr>a_status := ac_status d\<rparr> else a)
            ` set (session_attendances db)"
      by (rule rev_image_eqI) simp
    ultimately show ?thesis
      using Some s u assms(1,2) Pe
      by (simp add: mark_session_attendance_def attendance_key_def)
  qed
qed

theorem member_books_any_branch_witness:
  "ur_branch nils = Some ''Y'' \<and> s_branch_name yoga = Some ''X''
   \<and> mark_session_attendance 1 (booking 3 ''booked'' (Date 2024 6 1)) gym nils =
       (Inr \<lparr>ar_attendance =
               \<lparr>a_id = 3, a_session_id = 1, a_user_id = 3, a_status = ''booked'',
                a_attendance_date = Date 2024 6 1\<rparr>,
             ar_user =
               Some \<lparr>u_id = 3, u_name = ''Nils'', u_role = ''member'', u_branch = Some ''Y''\<rparr>\<rparr>,
        gym\<lparr>session_attendances :=
              session_attendances gym
              @ [\<lparr>a_id = 3, a_session_id = 1, a_user_id = 3, a_status = ''booked'',
                  a_attendance_date = Date 2024 6 1\<rparr>]\<rparr>)"
proof -
  let ?d = "booking 3 ''booked'' (Date 2024 6 1)"
  have hyps: "ur_role nils \<noteq> ''trainer''" "ac_user_id ?d = ur_id nils"
    "ur_id nils \<in> u_id ` set (users gym)" "1 \<in> s_id ` set (session_schedules gym)"
    by (simp_all add: gym_defs)
  from member_books_any_branch[OF hyps] obtain r db'
    where ok: "mark_session_attendance 1 ?d gym nils = (Inr r, db')" by blast
  have branches: "ur_branch nils = Some ''Y''" "s_branch_name yoga = Some ''X''"
    by (simp_all add: gym_defs)
  have "mark_session_attendance 1 ?d gym nils =
       (Inr \<lparr>ar_attendance =
               \<lparr>a_id = 3, a_session_id = 1, a_user_id = 3, a_status = ''booked'',
                a_attendance_date = Date 2024 6 1\<rparr>,
             ar_user =
               Some \<lparr>u_id = 3, u_name = ''Nils'', u_role = ''member'', u_branch = Some ''Y''\<rparr>\<rparr>,
        gym\<lparr>session_attendances :=
              session_attendances gym
              @ [\<lparr>a_id = 3, a_session_id = 1, a_user_id = 3, a_status = ''booked'',
                  a_attendance_date = Date 2024 6 1\<rparr>]\<rparr>)"
    using ok by (simp add: mark_session_attendance_def next_id_def Let_def gym_defs)
  with branches show ?thesis by (intro conjI)
qed

end
